theory Spec2Isabelle
  imports Complex_Main "HOL-Library.Multiset"
begin

section \<open>Python values, dictionary keys and exceptions\<close>

text \<open>
  The trainer of \<^verbatim>\<open>trainer_stage_two_new.py\<close> keeps its tensors in dictionaries.
  \<^verbatim>\<open>frame_ids\<close> holds integers and, with stereo training, the string \<^verbatim>\<open>"s"\<close>.
\<close>

datatype fid = Frame int | Stereo

text \<open>
  Dictionary keys. The source builds the keys of \<^verbatim>\<open>outputs\<close> by string concatenation
  (\<^verbatim>\<open>"omaskb_"+str(0)+"_"+str(frame_id)\<close>) and those of \<^verbatim>\<open>inputs\<close> as tuples
  (\<^verbatim>\<open>("color", 0, scale)\<close>); a key is kept here as the tag with the numbers it was
  built from, in the order the source writes them.
\<close>

datatype pykey =
    Model string
  | InColor fid nat
  | InColorAug fid nat
  | Feat fid
  | Disp nat
  | Omaskb nat fid
  | Color fid nat
  | R nat fid
  | Th nat fid

datatype error =
    KeyError pykey
  | NameError string
  | UnboundLocalError string
  | TypeError
  | IndexError
  | ZeroDivisionError
  | AssertionError
  | RuntimeError
  | IOError string

definition and_then :: "error + 'a \<Rightarrow> ('a \<Rightarrow> error + 'b) \<Rightarrow> error + 'b" where
  "and_then m f = (case m of Inl e \<Rightarrow> Inl e | Inr x \<Rightarrow> f x)"

definition getitem :: "(pykey \<rightharpoonup> 'v) \<Rightarrow> pykey \<Rightarrow> error + 'v" where
  "getitem d k = (case d k of None \<Rightarrow> Inl (KeyError k) | Some v \<Rightarrow> Inr v)"

section \<open>Checkpoint loading: \<^verbatim>\<open>Trainer.load_model\<close>\<close>

text \<open>
  A network (\<^verbatim>\<open>nn.Module\<close>) as far as \<^verbatim>\<open>load_model\<close> touches it: its state
  dictionary (parameters and buffers by name), its training flag, and the
  \<^verbatim>\<open>requires_grad\<close> flag of each parameter returned by \<^verbatim>\<open>parameters()\<close>.
\<close>

record 'v module =
  state_dict :: "string \<rightharpoonup> 'v"
  training :: bool
  requires_grad :: "string \<rightharpoonup> bool"

text \<open>
  \<^verbatim>\<open>load_state_dict\<close> with its default \<^verbatim>\<open>strict=True\<close>: the keys given must be the
  keys of the module, or it raises.
\<close>

definition load_state_dict :: "'v module \<Rightarrow> (string \<rightharpoonup> 'v) \<Rightarrow> error + 'v module" where
  "load_state_dict m d =
     (if dom d = dom (state_dict m) then Inr (m\<lparr>state_dict := d\<rparr>)
      else Inl RuntimeError)"

definition eval_mode :: "'v module \<Rightarrow> 'v module" where
  "eval_mode m = m\<lparr>training := False\<rparr>"

definition freeze_parameters :: "'v module \<Rightarrow> 'v module" where
  "freeze_parameters m = m\<lparr>requires_grad := map_option (\<lambda>_. False) \<circ> requires_grad m\<rparr>"

text \<open>
  Lines 676 to 680: the saved dictionary is filtered to the keys of the module's own
  dictionary, merged into it, and loaded.
\<close>

definition merge_pretrained :: "(string \<rightharpoonup> 'v) \<Rightarrow> (string \<rightharpoonup> 'v) \<Rightarrow> (string \<rightharpoonup> 'v)" where
  "merge_pretrained model_dict pretrained_dict =
     model_dict ++ (pretrained_dict |` dom model_dict)"

text \<open>
  The body of the loop over \<^verbatim>\<open>models_to_load\<close> (lines 674 to 683). \<open>torch_load n\<close>
  stands for \<^verbatim>\<open>torch.load(os.path.join(load_weights_folder, "{}.pth".format(n)))\<close>,
  which raises when the file cannot be read.
\<close>

definition load_one ::
  "(string \<Rightarrow> error + (string \<rightharpoonup> 'v)) \<Rightarrow> (string \<rightharpoonup> 'v module) \<Rightarrow> string
     \<Rightarrow> error + (string \<rightharpoonup> 'v module)" where
  "load_one torch_load models n =
     (case models n of
        None \<Rightarrow> Inl (KeyError (Model n))
      | Some m \<Rightarrow>
          and_then (torch_load n) (\<lambda>pretrained_dict.
          and_then (load_state_dict m (merge_pretrained (state_dict m) pretrained_dict)) (\<lambda>m'.
          Inr (models(n \<mapsto> freeze_parameters (eval_mode m'))))))"

fun load_loop ::
  "(string \<Rightarrow> error + (string \<rightharpoonup> 'v)) \<Rightarrow> string list \<Rightarrow> (string \<rightharpoonup> 'v module)
     \<Rightarrow> error + (string \<rightharpoonup> 'v module)" where
  "load_loop torch_load [] models = Inr models"
| "load_loop torch_load (n # ns) models =
     and_then (load_one torch_load models n) (load_loop torch_load ns)"

text \<open>
  \<^verbatim>\<open>load_model\<close>: the assertion that the weights folder is a directory, then the loop.
\<close>

definition load_model ::
  "bool \<Rightarrow> (string \<Rightarrow> error + (string \<rightharpoonup> 'v)) \<Rightarrow> string list \<Rightarrow> (string \<rightharpoonup> 'v module)
     \<Rightarrow> error + (string \<rightharpoonup> 'v module)" where
  "load_model isdir torch_load models_to_load models =
     (if \<not> isdir then Inl AssertionError
      else load_loop torch_load models_to_load models)"

text \<open>What one run of the loop body makes of a module, given the saved dictionary.\<close>

definition loaded :: "'v module \<Rightarrow> (string \<rightharpoonup> 'v) \<Rightarrow> 'v module" where
  "loaded m saved =
     freeze_parameters (eval_mode (m\<lparr>state_dict := merge_pretrained (state_dict m) saved\<rparr>))"

text \<open>
  A module is frozen when it is in evaluation mode and none of its parameters asks for
  a gradient: the state lines 681 to 683 leave it in.
\<close>

definition is_frozen :: "'v module \<Rightarrow> bool" where
  "is_frozen m \<longleftrightarrow>
     \<not> training m \<and> (\<forall>p \<in> dom (requires_grad m). requires_grad m p = Some False)"

text \<open>
  \<^verbatim>\<open>set_train\<close> (lines 191 to 199), which \<^verbatim>\<open>run_epoch\<close> calls before the first
  batch: \<^verbatim>\<open>.train()\<close> on six networks looked up by name.
\<close>

definition train_mode :: "'v module \<Rightarrow> 'v module" where
  "train_mode m = m\<lparr>training := True\<rparr>"

fun train_loop :: "string list \<Rightarrow> (string \<rightharpoonup> 'v module) \<Rightarrow> error + (string \<rightharpoonup> 'v module)" where
  "train_loop [] models = Inr models"
| "train_loop (n # ns) models =
     (case models n of
        None \<Rightarrow> Inl (KeyError (Model n))
      | Some m \<Rightarrow> train_loop ns (models(n \<mapsto> train_mode m)))"

definition set_train :: "(string \<rightharpoonup> 'v module) \<Rightarrow> error + (string \<rightharpoonup> 'v module)" where
  "set_train models =
     train_loop [''encoder'', ''depth'', ''transform_encoder'', ''transform'',
                 ''pose_encoder'', ''pose''] models"

section \<open>Tensor entries and tensors\<close>

text \<open>
  A tensor entry is a real number, one of the two infinities, or NaN, and the operations
  combine them as IEEE 754 arithmetic does: dividing by zero gives an infinity or NaN
  and raises nothing, as in torch. The rounding and the overflow of 32-bit floats and
  the sign of zero are not modelled: finite entries are computed exactly.
\<close>

datatype fl = Fin real | PInf | NInf | NaN

fun fadd :: "fl \<Rightarrow> fl \<Rightarrow> fl" where
  "fadd (Fin a) (Fin b) = Fin (a + b)"
| "fadd NaN _ = NaN"
| "fadd _ NaN = NaN"
| "fadd PInf NInf = NaN"
| "fadd NInf PInf = NaN"
| "fadd PInf _ = PInf"
| "fadd _ PInf = PInf"
| "fadd NInf _ = NInf"
| "fadd _ NInf = NInf"

fun fneg :: "fl \<Rightarrow> fl" where
  "fneg (Fin a) = Fin (- a)"
| "fneg PInf = NInf"
| "fneg NInf = PInf"
| "fneg NaN = NaN"

definition fsub :: "fl \<Rightarrow> fl \<Rightarrow> fl" where
  "fsub a b = fadd a (fneg b)"

fun fabs :: "fl \<Rightarrow> fl" where
  "fabs (Fin a) = Fin \<bar>a\<bar>"
| "fabs PInf = PInf"
| "fabs NInf = PInf"
| "fabs NaN = NaN"

definition signed_inf :: "bool \<Rightarrow> fl" where
  "signed_inf positive = (if positive then PInf else NInf)"

fun fmul :: "fl \<Rightarrow> fl \<Rightarrow> fl" where
  "fmul (Fin a) (Fin b) = Fin (a * b)"
| "fmul NaN _ = NaN"
| "fmul _ NaN = NaN"
| "fmul (Fin a) PInf = (if a = 0 then NaN else signed_inf (0 < a))"
| "fmul (Fin a) NInf = (if a = 0 then NaN else signed_inf (a < 0))"
| "fmul PInf (Fin b) = (if b = 0 then NaN else signed_inf (0 < b))"
| "fmul NInf (Fin b) = (if b = 0 then NaN else signed_inf (b < 0))"
| "fmul PInf PInf = PInf"
| "fmul PInf NInf = NInf"
| "fmul NInf PInf = NInf"
| "fmul NInf NInf = PInf"

fun fdiv :: "fl \<Rightarrow> fl \<Rightarrow> fl" where
  "fdiv (Fin a) (Fin b) =
     (if b = 0 then (if a = 0 then NaN else signed_inf (0 < a)) else Fin (a / b))"
| "fdiv NaN _ = NaN"
| "fdiv _ NaN = NaN"
| "fdiv (Fin a) PInf = Fin 0"
| "fdiv (Fin a) NInf = Fin 0"
| "fdiv PInf (Fin b) = signed_inf (0 \<le> b)"
| "fdiv NInf (Fin b) = signed_inf (b < 0)"
| "fdiv PInf PInf = NaN"
| "fdiv PInf NInf = NaN"
| "fdiv NInf PInf = NaN"
| "fdiv NInf NInf = NaN"

text \<open>
  Addition of entries is associative and commutative with \<open>Fin 0\<close> as its unit, so the
  sum of a list of entries is \<^const>\<open>sum_list\<close>.
\<close>

instantiation fl :: comm_monoid_add
begin

definition zero_fl :: fl where "zero_fl = Fin 0"

definition plus_fl :: "fl \<Rightarrow> fl \<Rightarrow> fl" where "plus_fl = fadd"

instance
proof
  fix a b c :: fl
  show "a + b + c = a + (b + c)"
    unfolding plus_fl_def by (cases a; cases b; cases c) simp_all
  show "a + b = b + a"
    unfolding plus_fl_def by (cases a; cases b) simp_all
  show "0 + a = a"
    unfolding plus_fl_def zero_fl_def by (cases a) simp_all
qed

end

text \<open>
  A tensor of four dimensions (batch, channel, height, width): its shape and its entry
  at each index. Only the entries at indices inside the shape are ever read.
\<close>

record tensor =
  dims :: "nat \<times> nat \<times> nat \<times> nat"
  elt :: "nat \<Rightarrow> nat \<Rightarrow> nat \<Rightarrow> nat \<Rightarrow> fl"

text \<open>
  Broadcasting, as torch does it for an elementwise operation: two sizes of a dimension
  agree when they are equal or one of them is 1, and the operation raises otherwise.
\<close>

definition bdim :: "nat \<Rightarrow> nat \<Rightarrow> error + nat" where
  "bdim m n = (if m = n then Inr m else if m = 1 then Inr n else if n = 1 then Inr m
               else Inl RuntimeError)"

definition bidx :: "nat \<Rightarrow> nat \<Rightarrow> nat" where
  "bidx d i = (if d = 1 then 0 else i)"

definition broadcast_dims ::
  "nat \<times> nat \<times> nat \<times> nat \<Rightarrow> nat \<times> nat \<times> nat \<times> nat \<Rightarrow> error + nat \<times> nat \<times> nat \<times> nat" where
  "broadcast_dims s t =
     (case (s, t) of ((a1, a2, a3, a4), (b1, b2, b3, b4)) \<Rightarrow>
        and_then (bdim a1 b1) (\<lambda>d1. and_then (bdim a2 b2) (\<lambda>d2.
        and_then (bdim a3 b3) (\<lambda>d3. and_then (bdim a4 b4) (\<lambda>d4. Inr (d1, d2, d3, d4))))))"

definition bget :: "tensor \<Rightarrow> nat \<Rightarrow> nat \<Rightarrow> nat \<Rightarrow> nat \<Rightarrow> fl" where
  "bget t b c h w =
     (case dims t of (d1, d2, d3, d4) \<Rightarrow> elt t (bidx d1 b) (bidx d2 c) (bidx d3 h) (bidx d4 w))"

definition tbin :: "(fl \<Rightarrow> fl \<Rightarrow> fl) \<Rightarrow> tensor \<Rightarrow> tensor \<Rightarrow> error + tensor" where
  "tbin f x y =
     and_then (broadcast_dims (dims x) (dims y)) (\<lambda>d.
       Inr \<lparr>dims = d, elt = (\<lambda>b c h w. f (bget x b c h w) (bget y b c h w))\<rparr>)"

definition tmap :: "(fl \<Rightarrow> fl) \<Rightarrow> tensor \<Rightarrow> tensor" where
  "tmap f x = \<lparr>dims = dims x, elt = (\<lambda>b c h w. f (elt x b c h w))\<rparr>"

text \<open>\<^verbatim>\<open>x.sum()\<close>: the sum of all entries.\<close>

definition tsum :: "tensor \<Rightarrow> fl" where
  "tsum x =
     (case dims x of (d1, d2, d3, d4) \<Rightarrow>
        (\<Sum>b\<leftarrow>[0..<d1]. \<Sum>c\<leftarrow>[0..<d2]. \<Sum>h\<leftarrow>[0..<d3]. \<Sum>w\<leftarrow>[0..<d4]. elt x b c h w))"

text \<open>
  \<^verbatim>\<open>x.mean(1, True)\<close>, \<^verbatim>\<open>x.mean(2, True)\<close> and \<^verbatim>\<open>x.mean(3, True)\<close>: the mean along
  one dimension, which is kept with size 1.
\<close>

definition mean1 :: "tensor \<Rightarrow> tensor" where
  "mean1 x =
     (case dims x of (d1, d2, d3, d4) \<Rightarrow>
        \<lparr>dims = (d1, 1, d3, d4),
         elt = (\<lambda>b c h w. fdiv (\<Sum>c'\<leftarrow>[0..<d2]. elt x b c' h w) (Fin (real d2)))\<rparr>)"

definition mean2 :: "tensor \<Rightarrow> tensor" where
  "mean2 x =
     (case dims x of (d1, d2, d3, d4) \<Rightarrow>
        \<lparr>dims = (d1, d2, 1, d4),
         elt = (\<lambda>b c h w. fdiv (\<Sum>h'\<leftarrow>[0..<d3]. elt x b c h' w) (Fin (real d3)))\<rparr>)"

definition mean3 :: "tensor \<Rightarrow> tensor" where
  "mean3 x =
     (case dims x of (d1, d2, d3, d4) \<Rightarrow>
        \<lparr>dims = (d1, d2, d3, 1),
         elt = (\<lambda>b c h w. fdiv (\<Sum>w'\<leftarrow>[0..<d4]. elt x b c h w') (Fin (real d4)))\<rparr>)"

text \<open>\<^verbatim>\<open>x.detach()\<close> cuts the gradient and leaves every entry as it is.\<close>

definition detach :: "tensor \<Rightarrow> tensor" where
  "detach x = x"

text \<open>Every entry inside the shape satisfies \<open>P\<close>.\<close>

definition tall :: "(fl \<Rightarrow> bool) \<Rightarrow> tensor \<Rightarrow> bool" where
  "tall P x =
     (case dims x of (d1, d2, d3, d4) \<Rightarrow>
        list_all (\<lambda>b. list_all (\<lambda>c. list_all (\<lambda>h. list_all (\<lambda>w. P (elt x b c h w))
          [0..<d4]) [0..<d3]) [0..<d2]) [0..<d1])"

definition is_fin :: "fl \<Rightarrow> bool" where
  "is_fin v = (case v of Fin _ \<Rightarrow> True | _ \<Rightarrow> False)"

section \<open>The training loss: \<^verbatim>\<open>compute_reprojection_loss\<close> and \<^verbatim>\<open>compute_losses\<close>\<close>

text \<open>
  The options the loss reads. \<open>frame_ids\<close> is the list as the constructor leaves it,
  and \<^verbatim>\<open>self.num_scales\<close> is \<^verbatim>\<open>len(self.opt.scales)\<close> (line 31).
\<close>

record options =
  scales :: "nat list"
  frame_ids :: "fid list"
  no_ssim :: bool
  transform_constraint :: fl
  transform_smoothness :: fl
  disparity_smoothness :: fl

definition num_scales :: "options \<Rightarrow> nat" where
  "num_scales opt = length (scales opt)"

text \<open>
  The layers of \<^verbatim>\<open>layers.py\<close> that the loss calls; the file is not part of the
  sources, so they are parameters. Each may raise.
\<close>

record layers =
  ssim :: "tensor \<Rightarrow> tensor \<Rightarrow> error + tensor"
  get_smooth_bright :: "tensor \<Rightarrow> tensor \<Rightarrow> tensor \<Rightarrow> tensor \<Rightarrow> error + fl"
  get_smooth_loss :: "tensor \<Rightarrow> tensor \<Rightarrow> error + fl"

text \<open>Lines 436 to 447.\<close>

definition compute_reprojection_loss ::
  "layers \<Rightarrow> options \<Rightarrow> tensor \<Rightarrow> tensor \<Rightarrow> error + tensor" where
  "compute_reprojection_loss L opt pred target =
     and_then (tbin fsub target pred) (\<lambda>diff.
       let abs_diff = tmap fabs diff;
           l1_loss = mean1 abs_diff
       in if no_ssim opt then Inr l1_loss
          else and_then (ssim L pred target) (\<lambda>s.
                 let ssim_loss = mean1 s
                 in tbin fadd (tmap (fmul (Fin (85 / 100))) ssim_loss)
                              (tmap (fmul (Fin (15 / 100))) l1_loss)))"

text \<open>
  \<^verbatim>\<open>(x * occu_mask_backward).sum() / occu_mask_backward.sum()\<close>, the normalisation of
  lines 477 and 479. Nothing tests the divisor.
\<close>

definition masked_mean :: "tensor \<Rightarrow> tensor \<Rightarrow> error + fl" where
  "masked_mean x occu =
     and_then (tbin fmul x occu) (\<lambda>p. Inr (fdiv (tsum p) (tsum occu)))"

text \<open>Lines 476 and 477: what one neighbor frame adds to \<^verbatim>\<open>loss_reprojection\<close>.\<close>

definition reprojection_term ::
  "layers \<Rightarrow> options \<Rightarrow> (pykey \<rightharpoonup> tensor) \<Rightarrow> nat \<Rightarrow> fid \<Rightarrow> tensor \<Rightarrow> error + fl" where
  "reprojection_term L opt outputs scale frame_id occu_mask_backward =
     and_then (getitem outputs (Color frame_id scale)) (\<lambda>pred.
     and_then (getitem outputs (R scale frame_id)) (\<lambda>target.
     and_then (compute_reprojection_loss L opt pred target) (\<lambda>l.
     masked_mean l occu_mask_backward)))"

text \<open>Lines 478 and 479: what one neighbor frame adds to \<^verbatim>\<open>loss_transform\<close>.\<close>

definition transform_term ::
  "(pykey \<rightharpoonup> tensor) \<Rightarrow> nat \<Rightarrow> fid \<Rightarrow> tensor \<Rightarrow> error + fl" where
  "transform_term outputs scale frame_id occu_mask_backward =
     and_then (getitem outputs (R scale frame_id)) (\<lambda>r.
     and_then (getitem outputs (R scale frame_id)) (\<lambda>r'.
     and_then (tbin fsub r (detach r')) (\<lambda>diff.
     masked_mean (mean1 (tmap fabs diff)) occu_mask_backward)))"

text \<open>Lines 481 and 482: what one neighbor frame adds to \<^verbatim>\<open>loss_cvt\<close>.\<close>

definition cvt_term ::
  "layers \<Rightarrow> (pykey \<rightharpoonup> tensor) \<Rightarrow> (pykey \<rightharpoonup> tensor) \<Rightarrow> nat \<Rightarrow> fid \<Rightarrow> tensor \<Rightarrow> error + fl" where
  "cvt_term L inputs outputs scale frame_id occu_mask_backward =
     and_then (getitem outputs (Th scale frame_id)) (\<lambda>th.
     and_then (getitem inputs (InColor (Frame 0) 0)) (\<lambda>color0.
     and_then (getitem outputs (R scale frame_id)) (\<lambda>r.
     get_smooth_bright L th color0 (detach r) occu_mask_backward)))"

text \<open>
  The three terms of one neighbor frame (lines 474 to 482). The mask is always the one
  of scale 0.
\<close>

definition frame_terms ::
  "layers \<Rightarrow> options \<Rightarrow> (pykey \<rightharpoonup> tensor) \<Rightarrow> (pykey \<rightharpoonup> tensor) \<Rightarrow> nat \<Rightarrow> fid
     \<Rightarrow> error + fl \<times> fl \<times> fl" where
  "frame_terms L opt inputs outputs scale frame_id =
     and_then (getitem outputs (Omaskb 0 frame_id)) (\<lambda>m.
       let occu_mask_backward = detach m in
       and_then (reprojection_term L opt outputs scale frame_id occu_mask_backward) (\<lambda>r.
       and_then (transform_term outputs scale frame_id occu_mask_backward) (\<lambda>t.
       and_then (cvt_term L inputs outputs scale frame_id occu_mask_backward) (\<lambda>c.
       Inr (r, t, c)))))"

text \<open>
  The loop over \<^verbatim>\<open>frame_ids[1:]\<close> with its three accumulators \<^verbatim>\<open>loss_reprojection\<close>,
  \<^verbatim>\<open>loss_transform\<close> and \<^verbatim>\<open>loss_cvt\<close>.
\<close>

fun frame_loop ::
  "layers \<Rightarrow> options \<Rightarrow> (pykey \<rightharpoonup> tensor) \<Rightarrow> (pykey \<rightharpoonup> tensor) \<Rightarrow> nat \<Rightarrow> fid list
     \<Rightarrow> fl \<times> fl \<times> fl \<Rightarrow> error + fl \<times> fl \<times> fl" where
  "frame_loop L opt inputs outputs scale [] acc = Inr acc"
| "frame_loop L opt inputs outputs scale (frame_id # rest) (loss_reprojection, loss_transform, loss_cvt) =
     and_then (frame_terms L opt inputs outputs scale frame_id) (\<lambda>(r, t, c).
       frame_loop L opt inputs outputs scale rest
         (loss_reprojection + r, loss_transform + t, loss_cvt + c))"

text \<open>Lines 484 and 485: the disparity divided by its mean over height and width.\<close>

definition norm_disp :: "tensor \<Rightarrow> error + tensor" where
  "norm_disp disp =
     (let mean_disp = mean3 (mean2 disp)
      in tbin fdiv disp (tmap (\<lambda>v. fadd v (Fin (1 / 10 ^ 7))) mean_disp))"

text \<open>
  The sum of lines 488 to 491, from the three accumulators and the smoothness of the
  disparity. \<^verbatim>\<open>loss\<close> starts at 0.
\<close>

definition combine ::
  "options \<Rightarrow> nat \<Rightarrow> fl \<Rightarrow> fl \<Rightarrow> fl \<Rightarrow> fl \<Rightarrow> fl" where
  "combine opt scale loss_reprojection loss_transform loss_cvt smooth_loss =
     0 + fdiv loss_reprojection (Fin 2)
       + fmul (transform_constraint opt) (fdiv loss_transform (Fin 2))
       + fmul (transform_smoothness opt) (fdiv loss_cvt (Fin 2))
       + fdiv (fmul (disparity_smoothness opt) smooth_loss) (Fin (2 ^ scale))"

text \<open>The body of the loop over the scales (lines 457 to 491): the loss of one scale.\<close>

definition scale_loss ::
  "layers \<Rightarrow> options \<Rightarrow> (pykey \<rightharpoonup> tensor) \<Rightarrow> (pykey \<rightharpoonup> tensor) \<Rightarrow> nat \<Rightarrow> error + fl" where
  "scale_loss L opt inputs outputs scale =
     and_then (getitem outputs (Disp scale)) (\<lambda>disp.
     and_then (getitem inputs (InColor (Frame 0) scale)) (\<lambda>color.
     and_then (frame_loop L opt inputs outputs scale (tl (frame_ids opt)) (0, 0, 0))
       (\<lambda>(loss_reprojection, loss_transform, loss_cvt).
     and_then (norm_disp disp) (\<lambda>nd.
     and_then (get_smooth_loss L nd color) (\<lambda>smooth_loss.
     Inr (combine opt scale loss_reprojection loss_transform loss_cvt smooth_loss))))))"

text \<open>The keys of \<^verbatim>\<open>losses\<close>: \<^verbatim>\<open>"loss/{}".format(scale)\<close> and \<^verbatim>\<open>"loss"\<close>.\<close>

datatype losskey = LossAt nat | LossTotal

fun scale_loop ::
  "layers \<Rightarrow> options \<Rightarrow> (pykey \<rightharpoonup> tensor) \<Rightarrow> (pykey \<rightharpoonup> tensor) \<Rightarrow> nat list
     \<Rightarrow> fl \<times> (losskey \<rightharpoonup> fl) \<Rightarrow> error + fl \<times> (losskey \<rightharpoonup> fl)" where
  "scale_loop L opt inputs outputs [] acc = Inr acc"
| "scale_loop L opt inputs outputs (scale # rest) (total_loss, losses) =
     and_then (scale_loss L opt inputs outputs scale) (\<lambda>loss.
       scale_loop L opt inputs outputs rest (total_loss + loss, losses(LossAt scale \<mapsto> loss)))"

text \<open>
  \<^verbatim>\<open>compute_losses\<close> (lines 449 to 498). With no scale at all \<^verbatim>\<open>total_loss\<close> is still
  the integer 0 and line 496 divides it by the integer 0, which Python refuses.
\<close>

definition compute_losses ::
  "layers \<Rightarrow> options \<Rightarrow> (pykey \<rightharpoonup> tensor) \<Rightarrow> (pykey \<rightharpoonup> tensor) \<Rightarrow> error + (losskey \<rightharpoonup> fl)" where
  "compute_losses L opt inputs outputs =
     and_then (scale_loop L opt inputs outputs (scales opt) (0, Map.empty)) (\<lambda>(total_loss, losses).
       if num_scales opt = 0 then Inl ZeroDivisionError
       else Inr (losses(LossTotal \<mapsto> fdiv total_loss (Fin (real (num_scales opt))))))"



section \<open>Pose prediction: \<^verbatim>\<open>Trainer.predict_poses\<close>\<close>

text \<open>
  What the constructor leaves in the trainer for \<^verbatim>\<open>predict_poses\<close> (lines 32 to 40):
  \<^verbatim>\<open>num_pose_frames\<close> is 2 when \<^verbatim>\<open>pose_model_input\<close> is \<^verbatim>\<open>"pairs"\<close> and the number of
  configured frames otherwise; \<^verbatim>\<open>frame_ids\<close> must start with 0 and gets \<^verbatim>\<open>"s"\<close> appended
  with stereo training.
\<close>

record trainer =
  opt_frame_ids :: "fid list"
  opt_pose_model_type :: string
  num_pose_frames :: nat

definition trainer_init :: "string \<Rightarrow> string \<Rightarrow> bool \<Rightarrow> fid list \<Rightarrow> error + trainer" where
  "trainer_init pose_model_type pose_model_input use_stereo frame_ids0 =
     (let num_input_frames = length frame_ids0;
          npf = (if pose_model_input = ''pairs'' then 2 else num_input_frames)
      in case frame_ids0 of
           [] \<Rightarrow> Inl IndexError
         | f # _ \<Rightarrow>
             if f \<noteq> Frame 0 then Inl AssertionError
             else Inr \<lparr>opt_frame_ids = frame_ids0 @ (if use_stereo then [Stereo] else []),
                       opt_pose_model_type = pose_model_type,
                       num_pose_frames = npf\<rparr>)"

text \<open>
  A Python value a name can be bound to, as far as lines 320 to 331 look at it:
  \<^verbatim>\<open>None\<close> or something else. \<open>'v\<close> is the type of tensors and of lists of tensors,
  which this function only passes on.
\<close>

datatype 'v pyval = PyNone | PyObj 'v

text \<open>
  Name lookup. A name the function never assigns (\<^verbatim>\<open>h_side\<close>, \<^verbatim>\<open>w_side\<close>, \<^verbatim>\<open>ref\<close>,
  \<^verbatim>\<open>target\<close>, \<^verbatim>\<open>intrinsic_inv_gpu\<close>, \<^verbatim>\<open>pose_gt\<close>, \<^verbatim>\<open>img_path\<close>) is looked up among the
  names of the module, which include whatever \<^verbatim>\<open>from utils import *\<close> and
  \<^verbatim>\<open>from layers import *\<close> bring (files that are not in the sources, so the module's
  names are a parameter), and raises NameError when it is not there. A name the function
  assigns somewhere (\<^verbatim>\<open>conf\<close>) is a local variable, and reading it before any
  assignment raises UnboundLocalError, a subclass of NameError.
\<close>

definition load_global :: "(string \<rightharpoonup> 'v pyval) \<Rightarrow> string \<Rightarrow> error + 'v pyval" where
  "load_global genv name = (case genv name of None \<Rightarrow> Inl (NameError name) | Some v \<Rightarrow> Inr v)"

definition load_fast :: "string \<Rightarrow> 'v option \<Rightarrow> error + 'v" where
  "load_fast name var = (case var of None \<Rightarrow> Inl (UnboundLocalError name) | Some v \<Rightarrow> Inr v)"

text \<open>
  The library and network calls of the loop body, each of which may raise:
  \<^verbatim>\<open>torch.cat(xs, 1)\<close>, the two networks, the slicing \<^verbatim>\<open>x[:,:,:h_side,:w_side]\<close>, and
  the call of \<^verbatim>\<open>self.pose_by_ransac\<close> on the values of its eight arguments.
\<close>

record 'v pose_nets =
  cat :: "'v list \<Rightarrow> error + 'v"
  position_encoder :: "'v \<Rightarrow> error + 'v"
  position :: "'v \<Rightarrow> error + 'v"
  slice_hw :: "'v \<Rightarrow> 'v pyval \<Rightarrow> 'v pyval \<Rightarrow> error + 'v"
  call_pose_by_ransac :: "'v \<Rightarrow> 'v pyval list \<Rightarrow> error + 'v"

text \<open>Lines 297 to 300: the dictionary comprehension over \<^verbatim>\<open>frame_ids\<close>.\<close>

fun build_feats ::
  "(fid \<Rightarrow> error + 'v) \<Rightarrow> fid list \<Rightarrow> (fid \<rightharpoonup> 'v) \<Rightarrow> error + (fid \<rightharpoonup> 'v)" where
  "build_feats get [] d = Inr d"
| "build_feats get (f_i # rest) d =
     and_then (get f_i) (\<lambda>v. build_feats get rest (d(f_i \<mapsto> v)))"

definition feat :: "(fid \<rightharpoonup> 'v) \<Rightarrow> fid \<Rightarrow> error + 'v" where
  "feat pose_feats f = (case pose_feats f of None \<Rightarrow> Inl (KeyError (Feat f)) | Some v \<Rightarrow> Inr v)"

text \<open>Lines 318 to 321.\<close>

definition trim_flow ::
  "'v pose_nets \<Rightarrow> (string \<rightharpoonup> 'v pyval) \<Rightarrow> 'v \<Rightarrow> error + 'v" where
  "trim_flow N genv flow_2D =
     and_then (load_global genv ''h_side'') (\<lambda>h.
     and_then (if h \<noteq> PyNone then Inr True
               else and_then (load_global genv ''w_side'') (\<lambda>w. Inr (w \<noteq> PyNone))) (\<lambda>c.
     if c then
       and_then (load_global genv ''h_side'') (\<lambda>h_side.
       and_then (load_global genv ''w_side'') (\<lambda>w_side.
       slice_hw N flow_2D h_side w_side))
     else Inr flow_2D))"

text \<open>
  Lines 322 to 325: \<^verbatim>\<open>try: conf = conf[:,:,:h_side,:w_side]\<close> with a bare
  \<^verbatim>\<open>except: conf = conf\<close>. The handler catches whatever the slicing raises and then
  reads \<^verbatim>\<open>conf\<close> again.
\<close>

definition trim_conf ::
  "'v pose_nets \<Rightarrow> (string \<rightharpoonup> 'v pyval) \<Rightarrow> 'v option \<Rightarrow> error + 'v" where
  "trim_conf N genv conf =
     (case and_then (load_fast ''conf'' conf) (\<lambda>c.
           and_then (load_global genv ''h_side'') (\<lambda>h_side.
           and_then (load_global genv ''w_side'') (\<lambda>w_side.
           slice_hw N c h_side w_side))) of
        Inr v \<Rightarrow> Inr v
      | Inl _ \<Rightarrow> load_fast ''conf'' conf)"

text \<open>Lines 330 and 331: the arguments are evaluated from left to right, then the call.\<close>

definition ransac_call ::
  "'v pose_nets \<Rightarrow> (string \<rightharpoonup> 'v pyval) \<Rightarrow> 'v \<Rightarrow> error + 'v" where
  "ransac_call N genv flow_2D =
     and_then (load_global genv ''ref'') (\<lambda>ref.
     and_then (load_global genv ''target'') (\<lambda>target.
     and_then (load_global genv ''intrinsic_inv_gpu'') (\<lambda>intrinsic_inv_gpu.
     and_then (load_global genv ''h_side'') (\<lambda>h_side.
     and_then (load_global genv ''w_side'') (\<lambda>w_side.
     and_then (load_global genv ''pose_gt'') (\<lambda>pose_gt.
     and_then (load_global genv ''img_path'') (\<lambda>img_path.
     call_pose_by_ransac N flow_2D
       [ref, target, intrinsic_inv_gpu, h_side, w_side, pose_gt, img_path])))))))"

text \<open>
  The body of the loop for one frame that is not \<^verbatim>\<open>"s"\<close> (lines 307 to 371). Its
  state is the local variable \<^verbatim>\<open>conf\<close> (unbound until assigned) and the dictionary
  \<^verbatim>\<open>outputs\<close>, kept as the list of its entries. \<open>fill\<close> stands for lines 336 to 371,
  which store the flows, masks, refined images and poses of the frame.
\<close>

definition pose_body ::
  "'v pose_nets \<Rightarrow> (string \<rightharpoonup> 'v pyval)
     \<Rightarrow> (fid \<Rightarrow> 'v \<Rightarrow> 'v \<Rightarrow> 'v \<Rightarrow> (pykey \<times> 'v) list \<Rightarrow> error + (pykey \<times> 'v) list)
     \<Rightarrow> (fid \<rightharpoonup> 'v) \<Rightarrow> fid \<Rightarrow> 'v option \<times> (pykey \<times> 'v) list
     \<Rightarrow> error + 'v option \<times> (pykey \<times> 'v) list" where
  "pose_body N genv fill pose_feats f_i st =
     (case st of (conf, outputs) \<Rightarrow>
     and_then (feat pose_feats f_i) (\<lambda>a.
     and_then (feat pose_feats (Frame 0)) (\<lambda>b.
     and_then (cat N [a, b]) (\<lambda>c1.
     and_then (position_encoder N c1) (\<lambda>position_inputs.
     and_then (cat N [b, a]) (\<lambda>c2.
     and_then (position_encoder N c2) (\<lambda>position_inputs_reverse.
     and_then (position N position_inputs) (\<lambda>outputs_0.
     and_then (position N position_inputs_reverse) (\<lambda>outputs_1.
     and_then (trim_flow N genv position_inputs) (\<lambda>flow_2D.
     and_then (trim_conf N genv conf) (\<lambda>conf'.
     and_then (ransac_call N genv flow_2D) (\<lambda>pe.
     and_then (fill f_i outputs_0 outputs_1 pe outputs) (\<lambda>outputs'.
     Inr (Some conf', outputs'))))))))))))))"

fun pose_loop ::
  "'v pose_nets \<Rightarrow> (string \<rightharpoonup> 'v pyval)
     \<Rightarrow> (fid \<Rightarrow> 'v \<Rightarrow> 'v \<Rightarrow> 'v \<Rightarrow> (pykey \<times> 'v) list \<Rightarrow> error + (pykey \<times> 'v) list)
     \<Rightarrow> (fid \<rightharpoonup> 'v) \<Rightarrow> fid list \<Rightarrow> 'v option \<times> (pykey \<times> 'v) list
     \<Rightarrow> error + (pykey \<times> 'v) list" where
  "pose_loop N genv fill pose_feats [] st = Inr (snd st)"
| "pose_loop N genv fill pose_feats (f_i # rest) st =
     (if f_i \<noteq> Stereo then
        and_then (pose_body N genv fill pose_feats f_i st) (pose_loop N genv fill pose_feats rest)
      else pose_loop N genv fill pose_feats rest st)"

text \<open>
  \<^verbatim>\<open>predict_poses\<close> (lines 292 to 374). With a shared encoder \<^verbatim>\<open>features\<close> is a
  dictionary by frame; otherwise the frames come from \<^verbatim>\<open>inputs["color_aug", f_i, 0]\<close>.
\<close>

definition predict_poses ::
  "'v pose_nets \<Rightarrow> (string \<rightharpoonup> 'v pyval)
     \<Rightarrow> (fid \<Rightarrow> 'v \<Rightarrow> 'v \<Rightarrow> 'v \<Rightarrow> (pykey \<times> 'v) list \<Rightarrow> error + (pykey \<times> 'v) list)
     \<Rightarrow> trainer \<Rightarrow> (pykey \<rightharpoonup> 'v) \<Rightarrow> (pykey \<rightharpoonup> 'v) \<Rightarrow> error + (pykey \<times> 'v) list" where
  "predict_poses N genv fill self inputs features =
     (if num_pose_frames self = 2 then
        and_then
          (if opt_pose_model_type self = ''shared''
           then build_feats (\<lambda>f_i. getitem features (Feat f_i)) (opt_frame_ids self) Map.empty
           else build_feats (\<lambda>f_i. getitem inputs (InColorAug f_i 0)) (opt_frame_ids self) Map.empty)
          (\<lambda>pose_feats. pose_loop N genv fill pose_feats (tl (opt_frame_ids self)) (None, []))
      else Inr [])"

section \<open>Pose estimation by RANSAC: \<^verbatim>\<open>Trainer.pose_by_ransac\<close>\<close>

text \<open>
  A keypoint position \<^verbatim>\<open>kp.pt\<close> and an OpenCV match \<^verbatim>\<open>DMatch\<close>, with the three fields
  lines 732 and 738 read.
\<close>

type_synonym point = "real \<times> real"

record dmatch =
  distance :: real
  queryIdx :: nat
  trainIdx :: nat

text \<open>
  An entry of \<^verbatim>\<open>PTS1\<close> or \<^verbatim>\<open>PTS2\<close>: the array \<^verbatim>\<open>np.array(pts)\<close> of line 739, or the list
  \<^verbatim>\<open>[None]\<close> of line 742, whose \<^verbatim>\<open>len\<close> is 1.
\<close>

datatype pts = Pts "point list" | NoneList

fun len_pts :: "pts \<Rightarrow> int" where
  "len_pts (Pts ps) = int (length ps)"
| "len_pts NoneList = 1"

text \<open>
  What the function uses and the file does not define. \<^verbatim>\<open>self.min_matches\<close>,
  \<^verbatim>\<open>self.sift\<close>, \<^verbatim>\<open>self.surf\<close> and \<^verbatim>\<open>self.flann\<close> are attributes the constructor of this
  file never sets, \<^verbatim>\<open>cfg\<close>, \<^verbatim>\<open>flow2coord\<close> and \<^verbatim>\<open>compute_P_matrix_ransac\<close> are names of
  the module that come, if at all, from its star imports: all of them are parameters.
  \<^item> \<^verbatim>\<open>flow2coord\<close> gives, for each item of the batch, the two coordinate fields after
    \<^verbatim>\<open>view(b,3,h,w)\<close> (lines 696 to 699): channels, rows, columns;
  \<^item> \<^verbatim>\<open>cv_image\<close> is the conversion of lines 711 to 717 of item \<^verbatim>\<open>b_cv\<close> of an image batch,
    with its crop to \<^verbatim>\<open>h_side\<close> and \<^verbatim>\<open>w_side\<close>;
  \<^item> \<^verbatim>\<open>sift\<close> and \<^verbatim>\<open>surf\<close> are \<^verbatim>\<open>detectAndCompute\<close> of the two detectors: keypoints and
    descriptors;
  \<^item> \<^verbatim>\<open>knnMatch\<close> is \<^verbatim>\<open>self.flann.knnMatch(des1,des2,k=2)\<close>; None stands for an exception
    (OpenCV raises when a descriptor is missing or too short);
  \<^item> \<^verbatim>\<open>grid_sample\<close> is the interpolation of lines 762 to 766 of a field at points;
  \<^item> \<^verbatim>\<open>compute_P_matrix_ransac\<close> is the five-point RANSAC of line 784 with the
    hyperparameters of the trainer, applied to the two lists of normalised points and the
    inverse intrinsic matrix.
\<close>

record ('flow, 'img, 'cv, 'desc, 'pose) cv_env =
  min_matches :: int
  SIFT_POSE :: bool
  SAMPLE_SP :: bool
  flow2coord :: "'flow \<Rightarrow> (fl list list list \<times> fl list list list) list"
  cv_image :: "'img \<Rightarrow> nat \<Rightarrow> 'cv"
  sift :: "'cv \<Rightarrow> point list \<times> 'desc"
  surf :: "'cv \<Rightarrow> point list \<times> 'desc"
  knnMatch :: "'desc \<Rightarrow> 'desc \<Rightarrow> dmatch list list option"
  grid_sample :: "fl list list list \<Rightarrow> point list \<Rightarrow> error + fl list list"
  compute_P_matrix_ransac :: "fl list list \<Rightarrow> fl list list \<Rightarrow> fl list list \<Rightarrow> error + 'pose"

subsection \<open>Matching the keypoints of one item (lines 719 to 742)\<close>

text \<open>
  Lines 720 to 725: SIFT keypoints, and SURF ones for both images when either image has
  fewer than \<^verbatim>\<open>min_matches\<close> of them.
\<close>

definition detect :: "('flow, 'img, 'cv, 'desc, 'pose) cv_env \<Rightarrow> 'cv \<Rightarrow> 'cv \<Rightarrow>
    (point list \<times> 'desc) \<times> (point list \<times> 'desc)" where
  "detect env ref_cv tar_cv =
     (let k1 = sift env ref_cv; k2 = sift env tar_cv
      in if int (length (fst k1)) < min_matches env \<or> int (length (fst k2)) < min_matches env
         then (surf env ref_cv, surf env tar_cv)
         else (k1, k2))"

text \<open>
  One loop over \<^verbatim>\<open>matches\<close> (line 731, and line 737 with every match kept). None stands
  for an exception: unpacking \<^verbatim>\<open>(m,n)\<close> from an entry that has not two elements, or
  indexing the keypoints outside their range.
\<close>

definition kp_pt :: "point list \<Rightarrow> nat \<Rightarrow> point option" where
  "kp_pt kp i = (if i < length kp then Some (kp ! i) else None)"

fun collect :: "(dmatch \<Rightarrow> dmatch \<Rightarrow> bool) \<Rightarrow> point list \<Rightarrow> point list \<Rightarrow> dmatch list list \<Rightarrow>
    (point list \<times> point list) option" where
  "collect keep kp1 kp2 [] = Some ([], [])"
| "collect keep kp1 kp2 (e # rest) =
     (case e of
        [m, n] \<Rightarrow>
          if keep m n then
            (case (kp_pt kp1 (queryIdx m), kp_pt kp2 (trainIdx m)) of
               (Some p, Some q) \<Rightarrow>
                 (case collect keep kp1 kp2 rest of
                    None \<Rightarrow> None
                  | Some (ps, qs) \<Rightarrow> Some (p # ps, q # qs))
             | _ \<Rightarrow> None)
          else collect keep kp1 kp2 rest
      | _ \<Rightarrow> None)"

definition ratio_test :: "dmatch \<Rightarrow> dmatch \<Rightarrow> bool" where
  "ratio_test m n = (distance m < 0.8 * distance n)"

text \<open>
  The body of the \<^verbatim>\<open>try\<close> (lines 729 to 739), None when it raises, and the whole
  statement with its bare \<^verbatim>\<open>except\<close> (lines 740 to 742).
\<close>

definition try_match :: "int \<Rightarrow> point list \<Rightarrow> point list \<Rightarrow> dmatch list list option \<Rightarrow>
    (point list \<times> point list) option" where
  "try_match mm kp1 kp2 knn =
     (case knn of
        None \<Rightarrow> None
      | Some matches \<Rightarrow>
          (case collect ratio_test kp1 kp2 matches of
             None \<Rightarrow> None
           | Some (pts1, pts2) \<Rightarrow>
               if int (length pts1) < mm then collect (\<lambda>m n. True) kp1 kp2 matches
               else Some (pts1, pts2)))"

definition match_points :: "int \<Rightarrow> point list \<Rightarrow> point list \<Rightarrow> dmatch list list option \<Rightarrow>
    pts \<times> pts" where
  "match_points mm kp1 kp2 knn =
     (case try_match mm kp1 kp2 knn of
        None \<Rightarrow> (NoneList, NoneList)
      | Some (pts1, pts2) \<Rightarrow> (Pts pts1, Pts pts2))"

definition match_item :: "('flow, 'img, 'cv, 'desc, 'pose) cv_env \<Rightarrow> 'img \<Rightarrow> 'img \<Rightarrow> nat \<Rightarrow>
    pts \<times> pts" where
  "match_item env ref target b_cv =
     (case detect env (cv_image env ref b_cv) (cv_image env target b_cv) of
        ((kp1, des1), (kp2, des2)) \<Rightarrow>
          match_points (min_matches env) kp1 kp2 (knnMatch env des1 des2))"

subsection \<open>Selecting the points of one item (lines 747 to 771)\<close>

definition margin :: nat where
  "margin = 10"

text \<open>
  The slice \<^verbatim>\<open>xs[m:-m]\<close>, and the dense sampling
  \<^verbatim>\<open>coord[batch,:,margin:-margin,margin:-margin].contiguous().view(3,-1)\<close>: every channel
  without its first and last \<^verbatim>\<open>m\<close> rows and columns, row after row.
\<close>

definition trim :: "nat \<Rightarrow> 'a list \<Rightarrow> 'a list" where
  "trim m xs = (if m = 0 then [] else drop m (take (length xs - m) xs))"

definition dense_sample :: "nat \<Rightarrow> fl list list list \<Rightarrow> fl list list" where
  "dense_sample m field = map (\<lambda>chan. concat (map (trim m) (trim m chan))) field"

text \<open>
  Lines 749 to 753: the matched points themselves, in homogeneous coordinates, one row
  for x, one for y and one of ones. \<^verbatim>\<open>torch.FloatTensor([None])\<close> raises a TypeError. An
  array of no points has one dimension, and the concatenation with the column of ones
  gives a tensor of one row and no column.
\<close>

definition homog :: "pts \<Rightarrow> error + fl list list" where
  "homog p =
     (case p of
        NoneList \<Rightarrow> Inl TypeError
      | Pts ps \<Rightarrow>
          if ps = [] then Inr [[]]
          else Inr [map (\<lambda>q. Fin (fst q)) ps, map (\<lambda>q. Fin (snd q)) ps, map (\<lambda>q. Fin 1) ps])"

text \<open>
  Lines 769 to 771: the fields at the rounded points. \<^verbatim>\<open>np.round\<close> rounds halves to the
  even neighbour; an index may be negative, counting from the end, and raises an
  IndexError out of range.
\<close>

definition np_round :: "real \<Rightarrow> int" where
  "np_round x =
     (let f = \<lfloor>x\<rfloor>; d = x - of_int f
      in if d < 1 / 2 then f else if 1 / 2 < d then f + 1 else if even f then f else f + 1)"

definition py_index :: "'a list \<Rightarrow> int \<Rightarrow> error + 'a" where
  "py_index xs i =
     (let n = int (length xs); j = (if i < 0 then i + n else i)
      in if 0 \<le> j \<and> j < n then Inr (xs ! nat j) else Inl IndexError)"

fun map_err :: "('a \<Rightarrow> error + 'b) \<Rightarrow> 'a list \<Rightarrow> error + 'b list" where
  "map_err f [] = Inr []"
| "map_err f (x # xs) = and_then (f x) (\<lambda>y. and_then (map_err f xs) (\<lambda>ys. Inr (y # ys)))"

definition gather :: "fl list list list \<Rightarrow> point list \<Rightarrow> error + fl list list" where
  "gather field ps =
     map_err (\<lambda>chan. map_err (\<lambda>q. and_then (py_index chan (np_round (snd q)))
                                     (\<lambda>row. py_index row (np_round (fst q)))) ps) field"

text \<open>
  The branches of lines 747 to 771. Without \<^verbatim>\<open>cfg.SIFT_POSE\<close>, an item with fewer than
  \<^verbatim>\<open>min_matches\<close> points in either list is sampled densely; otherwise the fields are
  read at the points of \<^verbatim>\<open>PTS1\<close>, which must then be an array of two columns
  (\<^verbatim>\<open>torch.from_numpy\<close> and \<^verbatim>\<open>np.round\<close> raise a TypeError on \<^verbatim>\<open>[None]\<close>, and
  \<^verbatim>\<open>pts1[:,0]\<close> an IndexError on an array of no points).
\<close>

definition select_points :: "('flow, 'img, 'cv, 'desc, 'pose) cv_env \<Rightarrow>
    fl list list list \<Rightarrow> fl list list list \<Rightarrow> pts \<Rightarrow> pts \<Rightarrow> error + (fl list list \<times> fl list list)" where
  "select_points env c1 c2 p1 p2 =
     (if SIFT_POSE env then
        and_then (homog p1) (\<lambda>a. and_then (homog p2) (\<lambda>b. Inr (a, b)))
      else if len_pts p1 < min_matches env \<or> len_pts p2 < min_matches env then
        Inr (dense_sample margin c1, dense_sample margin c2)
      else
        (case p1 of
           NoneList \<Rightarrow> Inl TypeError
         | Pts ps \<Rightarrow>
             if ps = [] then Inl IndexError
             else if SAMPLE_SP env then
               and_then (grid_sample env c1 ps) (\<lambda>a. and_then (grid_sample env c2 ps) (\<lambda>b. Inr (a, b)))
             else
               and_then (gather c1 ps) (\<lambda>a. and_then (gather c2 ps) (\<lambda>b. Inr (a, b)))))"

subsection \<open>Projection and RANSAC (lines 773 to 789)\<close>

text \<open>
  \<^verbatim>\<open>torch.bmm\<close> of a matrix and the selected coordinates, which raises when the shapes do
  not fit, and lines 779 and 780: one point per column, its first two coordinates.
\<close>

definition bmm :: "fl list list \<Rightarrow> fl list list \<Rightarrow> error + fl list list" where
  "bmm K c =
     (if list_all (\<lambda>row. length row = length c) K
      then Inr (map (\<lambda>row. map (\<lambda>col. sum_list (map2 fmul row col)) (transpose c)) K)
      else Inl RuntimeError)"

definition project :: "fl list list \<Rightarrow> fl list list \<Rightarrow> error + fl list list" where
  "project K c = and_then (bmm K c) (\<lambda>r. Inr (map (take 2) (transpose r)))"

definition py_nth :: "'a list \<Rightarrow> nat \<Rightarrow> error + 'a" where
  "py_nth xs i = (if i < length xs then Inr (xs ! i) else Inl IndexError)"

definition pose_item :: "('flow, 'img, 'cv, 'desc, 'pose) cv_env \<Rightarrow> fl list list list \<Rightarrow>
    fl list list list \<Rightarrow> fl list list list \<Rightarrow> pts \<Rightarrow> pts \<Rightarrow> nat \<Rightarrow> error + 'pose" where
  "pose_item env intrinsic_inv_gpu c1 c2 p1 p2 batch =
     and_then (select_points env c1 c2 p1 p2) (\<lambda>sel.
     and_then (py_nth intrinsic_inv_gpu batch) (\<lambda>K.
     and_then (project K (fst sel)) (\<lambda>a.
     and_then (project K (snd sel)) (\<lambda>b.
       compute_P_matrix_ransac env a b K))))"

text \<open>
  The second loop, which stops at the first item that raises, and the whole function:
  the matches of every item first, then the pose of every item. The result is the list
  of what RANSAC returned for the items, from which \<^verbatim>\<open>E_mat\<close> and \<^verbatim>\<open>P_mat\<close> are filled.
\<close>

fun ransac_loop :: "('flow, 'img, 'cv, 'desc, 'pose) cv_env \<Rightarrow> fl list list list \<Rightarrow>
    (nat \<times> (fl list list list \<times> fl list list list) \<times> (pts \<times> pts)) list \<Rightarrow> error + 'pose list" where
  "ransac_loop env intrinsic_inv_gpu [] = Inr []"
| "ransac_loop env intrinsic_inv_gpu (item # rest) =
     and_then (pose_item env intrinsic_inv_gpu (fst (fst (snd item))) (snd (fst (snd item)))
                 (fst (snd (snd item))) (snd (snd (snd item))) (fst item)) (\<lambda>p.
     and_then (ransac_loop env intrinsic_inv_gpu rest) (\<lambda>ps. Inr (p # ps)))"

definition pose_by_ransac :: "('flow, 'img, 'cv, 'desc, 'pose) cv_env \<Rightarrow> 'flow \<Rightarrow> 'img \<Rightarrow> 'img \<Rightarrow>
    fl list list list \<Rightarrow> error + 'pose list" where
  "pose_by_ransac env flow_2D ref target intrinsic_inv_gpu =
     (let coords = flow2coord env flow_2D;
          b = length coords;
          PTS = map (match_item env ref target) [0..<b]
      in ransac_loop env intrinsic_inv_gpu (zip [0..<b] (zip coords PTS)))"

section \<open>Concrete inputs\<close>

definition depth0 :: "int module" where
  "depth0 = \<lparr>state_dict = [''w'' \<mapsto> 1, ''b'' \<mapsto> 2], training = True,
             requires_grad = [''w'' \<mapsto> True, ''b'' \<mapsto> True]\<rparr>"

definition models0 :: "string \<rightharpoonup> int module" where
  "models0 = [''depth'' \<mapsto> depth0]"

definition saved0 :: "string \<rightharpoonup> int" where
  "saved0 = [''w'' \<mapsto> 10, ''b'' \<mapsto> 20, ''extra'' \<mapsto> 30]"

text \<open>Small tensors, layers and dictionaries on which the loss is evaluated below.\<close>

definition const_tensor :: "nat \<times> nat \<times> nat \<times> nat \<Rightarrow> fl \<Rightarrow> tensor" where
  "const_tensor d v = \<lparr>dims = d, elt = (\<lambda>b c h w. v)\<rparr>"

definition img0 :: tensor where
  "img0 = \<lparr>dims = (1, 3, 1, 2), elt = (\<lambda>b c h w. Fin (real (c + w) / 4))\<rparr>"

definition ones_mask :: tensor where
  "ones_mask = const_tensor (1, 1, 1, 2) (Fin 1)"

definition zero_mask :: tensor where
  "zero_mask = const_tensor (1, 1, 1, 2) (Fin 0)"

text \<open>
  Stand-ins for the three layers: a dissimilarity that is half the absolute difference,
  and constant smoothness terms.
\<close>

definition layers0 :: layers where
  "layers0 = \<lparr>ssim = (\<lambda>x y. tbin (\<lambda>a b. fdiv (fabs (fsub a b)) (Fin 2)) x y),
               get_smooth_bright = (\<lambda>th color r occu. Inr (Fin 0)),
               get_smooth_loss = (\<lambda>nd color. Inr (Fin 0))\<rparr>"

definition opt0 :: options where
  "opt0 = \<lparr>scales = [0], frame_ids = [Frame 0, Frame (- 1), Frame 1], no_ssim = False,
            transform_constraint = Fin (1 / 100), transform_smoothness = Fin (1 / 100),
            disparity_smoothness = Fin (1 / 10000)\<rparr>"

definition opt3 :: options where
  "opt3 = opt0\<lparr>frame_ids := [Frame 0, Frame (- 1), Frame 1, Frame 2], no_ssim := True\<rparr>"

text \<open>Outputs in which the warped prediction is the registration target.\<close>

definition outputs_eq :: "pykey \<rightharpoonup> tensor" where
  "outputs_eq = (\<lambda>k. case k of
       Color f s \<Rightarrow> Some img0
     | R s f \<Rightarrow> Some img0
     | Omaskb s f \<Rightarrow> Some ones_mask
     | Th s f \<Rightarrow> Some img0
     | Disp s \<Rightarrow> Some ones_mask
     | _ \<Rightarrow> None)"

text \<open>Outputs in which the prediction is 1 and the target 0 at every entry.\<close>

definition outputs1 :: "pykey \<rightharpoonup> tensor" where
  "outputs1 = (\<lambda>k. case k of
       Color f s \<Rightarrow> Some (const_tensor (1, 3, 1, 2) (Fin 1))
     | R s f \<Rightarrow> Some (const_tensor (1, 3, 1, 2) (Fin 0))
     | Omaskb s f \<Rightarrow> Some ones_mask
     | Th s f \<Rightarrow> Some img0
     | Disp s \<Rightarrow> Some ones_mask
     | _ \<Rightarrow> None)"

text \<open>The same outputs with an occlusion mask that is zero everywhere.\<close>

definition outputs_zero_mask :: "pykey \<rightharpoonup> tensor" where
  "outputs_zero_mask = (\<lambda>k. case k of Omaskb s f \<Rightarrow> Some zero_mask | _ \<Rightarrow> outputs1 k)"

definition inputs0 :: "pykey \<rightharpoonup> tensor" where
  "inputs0 = (\<lambda>k. case k of InColor f s \<Rightarrow> Some img0 | _ \<Rightarrow> None)"



text \<open>
  A trainer, networks that return their argument, a module without the names the loop
  reads, and a batch with the three frames of \<^verbatim>\<open>frame_ids = [0, -1, 1]\<close>.
\<close>

definition nets0 :: "nat pose_nets" where
  "nets0 = \<lparr>cat = (\<lambda>xs. Inr (sum_list xs)), position_encoder = Inr, position = Inr,
             slice_hw = (\<lambda>x h w. Inr x), call_pose_by_ransac = (\<lambda>x args. Inr x)\<rparr>"

definition no_globals :: "string \<rightharpoonup> nat pyval" where
  "no_globals = Map.empty"

definition fill0 :: "fid \<Rightarrow> nat \<Rightarrow> nat \<Rightarrow> nat \<Rightarrow> (pykey \<times> nat) list \<Rightarrow> error + (pykey \<times> nat) list" where
  "fill0 f a b c outputs = Inr ((R 0 f, a) # outputs)"

definition inputs_aug :: "pykey \<rightharpoonup> nat" where
  "inputs_aug = (\<lambda>k. case k of InColorAug f s \<Rightarrow> Some 1 | _ \<Rightarrow> None)"

definition self_pairs :: trainer where
  "self_pairs = \<lparr>opt_frame_ids = [Frame 0, Frame (- 1), Frame 1],
                 opt_pose_model_type = ''separate_resnet'', num_pose_frames = 2\<rparr>"

definition self_all :: trainer where
  "self_all = \<lparr>opt_frame_ids = [Frame 0, Frame (- 1), Frame 1],
               opt_pose_model_type = ''separate_resnet'', num_pose_frames = 3\<rparr>"

text \<open>
  For \<^verbatim>\<open>pose_by_ransac\<close>: coordinate fields of 21 rows and 21 columns (x, y and 1), the
  identity as inverse intrinsic matrix, detectors that find three keypoints, a matcher
  that raises on the first image of the batch \<^verbatim>\<open>0\<close> and finds one match on every other
  image, and a RANSAC that returns the points it was given. The flow stands for its
  coordinate fields, an image of a batch for its number.
\<close>

definition field0 :: "fl list list list" where
  "field0 = [map (\<lambda>i. map (\<lambda>j. Fin (real j)) [0..<21]) [0..<21],
             map (\<lambda>i. map (\<lambda>j. Fin (real i)) [0..<21]) [0..<21],
             map (\<lambda>i. map (\<lambda>j. Fin 1) [0..<21]) [0..<21]]"

definition K0 :: "fl list list" where
  "K0 = [[Fin 1, Fin 0, Fin 0], [Fin 0, Fin 1, Fin 0], [Fin 0, Fin 0, Fin 1]]"

definition kps0 :: "point list" where
  "kps0 = [(1, 2), (3, 4), (5, 6)]"

definition match0 :: "dmatch list list" where
  "match0 = [[\<lparr>distance = 1, queryIdx = 0, trainIdx = 1\<rparr>,
              \<lparr>distance = 2, queryIdx = 0, trainIdx = 2\<rparr>]]"

definition env0 :: "((fl list list list \<times> fl list list list) list, nat, nat, nat,
    fl list list \<times> fl list list) cv_env" where
  "env0 = \<lparr>min_matches = 8, SIFT_POSE = False, SAMPLE_SP = False,
     flow2coord = (\<lambda>flow. flow), cv_image = (\<lambda>img b. img + b),
     sift = (\<lambda>img. (kps0, img)), surf = (\<lambda>img. (kps0, img)),
     knnMatch = (\<lambda>d1 d2. if d1 = 0 then None else Some match0),
     grid_sample = (\<lambda>field ps. Inl RuntimeError),
     compute_P_matrix_ransac = (\<lambda>a b K. Inr (a, b))\<rparr>"

definition env_sift :: "((fl list list list \<times> fl list list list) list, nat, nat, nat,
    fl list list \<times> fl list list) cv_env" where
  "env_sift = env0\<lparr>SIFT_POSE := True\<rparr>"

section \<open>Properties of checkpoint loading\<close>

lemma dom_merge_pretrained: "dom (merge_pretrained d p) = dom d"
  by (auto simp: merge_pretrained_def restrict_map_def dom_def map_add_def split: option.splits if_splits)




lemma load_one_Inr:
  "models n = Some m \<Longrightarrow> torch_load n = Inr saved \<Longrightarrow>
   load_one torch_load models n = Inr (models(n \<mapsto> loaded m saved))"
  by (simp add: load_one_def and_then_def load_state_dict_def dom_merge_pretrained loaded_def)



lemma is_frozen_loaded: "is_frozen (loaded m saved)"
  by (auto simp: is_frozen_def loaded_def freeze_parameters_def eval_mode_def)

lemma load_one_frozen:
  assumes "load_one torch_load models n = Inr models'"
  shows "(\<exists>m'. models' n = Some m' \<and> is_frozen m') \<and> (\<forall>k. k \<noteq> n \<longrightarrow> models' k = models k)"
proof -
  from assms obtain m where m: "models n = Some m"
    by (auto simp: load_one_def split: option.splits)
  from assms m obtain saved where s: "torch_load n = Inr saved"
    by (cases "torch_load n") (auto simp: load_one_def and_then_def)
  have "models' = models(n \<mapsto> loaded m saved)"
    using assms m s by (simp add: load_one_Inr)
  then show ?thesis by (simp add: is_frozen_loaded)
qed

lemma load_loop_frozen:
  assumes "load_loop torch_load ns models = Inr models'"
    and "\<forall>k \<in> S. \<exists>m. models k = Some m \<and> is_frozen m"
  shows "\<forall>k \<in> S \<union> set ns. \<exists>m. models' k = Some m \<and> is_frozen m"
  using assms
proof (induction ns arbitrary: models S)
  case Nil
  then show ?case by simp
next
  case (Cons a ns)
  from Cons.prems(1) obtain M where
    one: "load_one torch_load models a = Inr M" and rest: "load_loop torch_load ns M = Inr models'"
    by (cases "load_one torch_load models a") (auto simp: and_then_def)
  from load_one_frozen [OF one] have
    a: "\<exists>m'. M a = Some m' \<and> is_frozen m'" and other: "\<And>k. k \<noteq> a \<Longrightarrow> M k = models k"
    by auto
  have "\<forall>k \<in> insert a S. \<exists>m. M k = Some m \<and> is_frozen m"
  proof
    fix k assume "k \<in> insert a S"
    then show "\<exists>m. M k = Some m \<and> is_frozen m"
      using a other [of k] Cons.prems(2) by (cases "k = a") auto
  qed
  from Cons.IH [OF rest this] show ?case by simp
qed

lemma train_loop_requires_grad:
  assumes "train_loop ns models = Inr models'"
  shows "map_option requires_grad (models' k) = map_option requires_grad (models k)"
  using assms
proof (induction ns arbitrary: models)
  case Nil
  then show ?case by simp
next
  case (Cons a ns)
  from Cons.prems obtain m where m: "models a = Some m"
    by (auto split: option.splits)
  with Cons.prems have "train_loop ns (models(a \<mapsto> train_mode m)) = Inr models'"
    by simp
  from Cons.IH [OF this] show ?case
    using m by (auto simp: train_mode_def)
qed



text \<open>
  Claim C10. Whenever \<^verbatim>\<open>load_model\<close> returns, every model named in
  \<^verbatim>\<open>models_to_load\<close> is in evaluation mode and every one of its parameters has
  \<^verbatim>\<open>requires_grad\<close> False; \<^verbatim>\<open>set_train\<close>, which the training run calls next,
  changes no \<^verbatim>\<open>requires_grad\<close> flag, so the loaded parameters stay frozen.
\<close>

theorem load_model_freezes:
  assumes "load_model isdir torch_load models_to_load models = Inr models'"
    and "n \<in> set models_to_load"
  shows "(\<exists>m'. models' n = Some m' \<and> \<not> training m' \<and>
            (\<forall>p \<in> dom (requires_grad m'). requires_grad m' p = Some False)) \<and>
         (\<forall>models''. set_train models' = Inr models'' \<longrightarrow>
            (\<exists>m''. models'' n = Some m'' \<and>
               (\<forall>p \<in> dom (requires_grad m''). requires_grad m'' p = Some False)))"
proof -
  from assms(1) have run: "load_loop torch_load models_to_load models = Inr models'"
    by (simp add: load_model_def split: if_splits)
  have "\<forall>k \<in> {} \<union> set models_to_load. \<exists>m. models' k = Some m \<and> is_frozen m"
    by (rule load_loop_frozen [OF run]) simp
  with assms(2) obtain m' where m': "models' n = Some m'" "is_frozen m'"
    by auto
  have "\<exists>m''. models'' n = Some m'' \<and>
          (\<forall>p \<in> dom (requires_grad m''). requires_grad m'' p = Some False)"
    if "set_train models' = Inr models''" for models''
  proof -
    from that have "map_option requires_grad (models'' n) = map_option requires_grad (models' n)"
      unfolding set_train_def by (rule train_loop_requires_grad)
    with m' show ?thesis by (auto simp: is_frozen_def)
  qed
  with m' show ?thesis by (auto simp: is_frozen_def)
qed

theorem load_model_freezes_witness:
  "load_model True (\<lambda>_. Inr saved0) [''depth''] models0 = Inr [''depth'' \<mapsto> loaded depth0 saved0] \<and>
   ''depth'' \<in> set [''depth''] \<and>
   (\<exists>m'. [''depth'' \<mapsto> loaded depth0 saved0] ''depth'' = Some m' \<and> \<not> training m' \<and>
      requires_grad m' ''w'' = Some False \<and> requires_grad m' ''b'' = Some False)"
proof -
  have r: "load_model True (\<lambda>_. Inr saved0) [''depth''] models0
             = Inr [''depth'' \<mapsto> loaded depth0 saved0]"
    by (simp add: load_model_def and_then_def models0_def load_one_Inr)
  have d: "dom (requires_grad (loaded depth0 saved0)) = {''w'', ''b''}"
    by (auto simp: loaded_def freeze_parameters_def eval_mode_def depth0_def split: if_splits)
  from load_model_freezes [OF r, of "''depth''"] d show ?thesis
    using r by auto
qed

section \<open>Sums of entries and entrywise facts\<close>

lemma and_then_Inr [simp]: "and_then (Inr x) f = f x"
  by (simp add: and_then_def)

lemma and_then_Inl [simp]: "and_then (Inl e) f = Inl e"
  by (simp add: and_then_def)

lemma and_then_eq_Inr:
  "and_then m f = Inr y \<longleftrightarrow> (\<exists>x. m = Inr x \<and> f x = Inr y)"
  by (cases m) simp_all

lemma getitem_Some [simp]: "d k = Some v \<Longrightarrow> getitem d k = Inr v"
  by (simp add: getitem_def)

lemma getitem_eq_Inr: "getitem d k = Inr v \<longleftrightarrow> d k = Some v"
  by (simp add: getitem_def split: option.splits)

lemma fl_zero: "(0::fl) = Fin 0"
  by (simp add: zero_fl_def)

lemma fl_plus_Fin [simp]: "Fin a + Fin b = Fin (a + b)"
  by (simp add: plus_fl_def)

lemma fl_plus_NaN [simp]: "NaN + v = NaN" "v + NaN = NaN"
  by (cases v; simp add: plus_fl_def)+

lemma fl_plus_Fin0 [simp]: "a + Fin 0 = a" "Fin 0 + a = a"
  by (simp_all add: zero_fl_def [symmetric])

lemma sum_list_Fin: "(\<Sum>i\<leftarrow>xs. Fin (g i)) = Fin (\<Sum>i\<leftarrow>xs. g i)"
  by (induction xs) (simp_all add: fl_zero)

lemma sum_list_all_zero:
  "(\<And>i. i \<in> set xs \<Longrightarrow> f i = Fin 0) \<Longrightarrow> (\<Sum>i\<leftarrow>xs. f i) = Fin 0"
  by (induction xs) (simp_all add: fl_zero)

lemma sum_list_zero_or_NaN:
  "(\<And>i. i \<in> set xs \<Longrightarrow> f i = Fin 0 \<or> f i = NaN)
     \<Longrightarrow> (\<Sum>i\<leftarrow>xs. f i) = Fin 0 \<or> (\<Sum>i\<leftarrow>xs. f i) = NaN"
proof (induction xs)
  case Nil
  then show ?case by (simp add: fl_zero)
next
  case (Cons a xs)
  then have "f a = Fin 0 \<or> f a = NaN" and
    "(\<Sum>i\<leftarrow>xs. f i) = Fin 0 \<or> (\<Sum>i\<leftarrow>xs. f i) = NaN"
    by simp_all
  then show ?case by auto
qed

lemma sum_list_const_one: "(\<Sum>i\<leftarrow>xs. Fin (real n)) = Fin (real (length xs * n))"
  by (induction xs) (simp_all add: fl_zero algebra_simps)

lemma tall_iff:
  "tall P x \<longleftrightarrow>
     (case dims x of (d1, d2, d3, d4) \<Rightarrow>
        \<forall>b<d1. \<forall>c<d2. \<forall>h<d3. \<forall>w<d4. P (elt x b c h w))"
  by (auto simp: tall_def list_all_iff split: prod.splits)

lemma tallD:
  "tall P x \<Longrightarrow> dims x = (d1, d2, d3, d4) \<Longrightarrow> b < d1 \<Longrightarrow> c < d2 \<Longrightarrow> h < d3 \<Longrightarrow> w < d4
     \<Longrightarrow> P (elt x b c h w)"
  by (simp add: tall_iff)

lemma tallI:
  "dims x = (d1, d2, d3, d4) \<Longrightarrow>
   (\<And>b c h w. b < d1 \<Longrightarrow> c < d2 \<Longrightarrow> h < d3 \<Longrightarrow> w < d4 \<Longrightarrow> P (elt x b c h w))
     \<Longrightarrow> tall P x"
  by (simp add: tall_iff)

lemma tall_mono: "tall P x \<Longrightarrow> (\<And>v. P v \<Longrightarrow> Q v) \<Longrightarrow> tall Q x"
  by (auto simp: tall_iff split: prod.splits)

lemma tsum_all_zero: "tall (\<lambda>v. v = Fin 0) x \<Longrightarrow> tsum x = Fin 0"
  by (auto simp: tsum_def tall_iff split: prod.splits intro!: sum_list_all_zero)

lemma tsum_zero_or_NaN:
  assumes "tall (\<lambda>v. v = Fin 0 \<or> v = NaN) x"
  shows "tsum x = Fin 0 \<or> tsum x = NaN"
proof -
  obtain d1 d2 d3 d4 where d: "dims x = (d1, d2, d3, d4)"
    by (cases "dims x") auto
  have "P (elt x b c h w)" if "tall P x" "b < d1" "c < d2" "h < d3" "w < d4" for P b c h w
    using that d by (simp add: tall_iff)
  from this [OF assms] show ?thesis
    unfolding tsum_def d prod.case
    by (intro sum_list_zero_or_NaN) simp_all
qed

lemma tsum_all_one:
  assumes "tall (\<lambda>v. v = Fin 1) x" and "dims x = (d1, d2, d3, d4)"
  shows "tsum x = Fin (real (d1 * d2 * d3 * d4))"
proof -
  have e: "elt x b c h w = Fin (real 1)" if "b < d1" "c < d2" "h < d3" "w < d4" for b c h w
    using tallD [OF assms that] by simp
  have 4: "(\<Sum>w\<leftarrow>[0..<d4]. elt x b c h w) = Fin (real (d4 * 1))"
    if "b < d1" "c < d2" "h < d3" for b c h
  proof -
    have "(\<Sum>w\<leftarrow>[0..<d4]. elt x b c h w) = (\<Sum>w\<leftarrow>[0..<d4]. Fin (real 1))"
      using e [OF that] by (intro arg_cong [where f = sum_list] map_cong) simp_all
    then show ?thesis by (simp only: sum_list_const_one length_upt diff_zero)
  qed
  have 3: "(\<Sum>h\<leftarrow>[0..<d3]. \<Sum>w\<leftarrow>[0..<d4]. elt x b c h w) = Fin (real (d3 * (d4 * 1)))"
    if "b < d1" "c < d2" for b c
  proof -
    have "(\<Sum>h\<leftarrow>[0..<d3]. \<Sum>w\<leftarrow>[0..<d4]. elt x b c h w) = (\<Sum>h\<leftarrow>[0..<d3]. Fin (real (d4 * 1)))"
      using 4 [OF that] by (intro arg_cong [where f = sum_list] map_cong) simp_all
    then show ?thesis by (simp only: sum_list_const_one length_upt diff_zero)
  qed
  have 2: "(\<Sum>c\<leftarrow>[0..<d2]. \<Sum>h\<leftarrow>[0..<d3]. \<Sum>w\<leftarrow>[0..<d4]. elt x b c h w)
             = Fin (real (d2 * (d3 * (d4 * 1))))"
    if "b < d1" for b
  proof -
    have "(\<Sum>c\<leftarrow>[0..<d2]. \<Sum>h\<leftarrow>[0..<d3]. \<Sum>w\<leftarrow>[0..<d4]. elt x b c h w)
            = (\<Sum>c\<leftarrow>[0..<d2]. Fin (real (d3 * (d4 * 1))))"
      using 3 [OF that] by (intro arg_cong [where f = sum_list] map_cong) simp_all
    then show ?thesis by (simp only: sum_list_const_one length_upt diff_zero)
  qed
  have "(\<Sum>b\<leftarrow>[0..<d1]. \<Sum>c\<leftarrow>[0..<d2]. \<Sum>h\<leftarrow>[0..<d3]. \<Sum>w\<leftarrow>[0..<d4]. elt x b c h w)
          = (\<Sum>b\<leftarrow>[0..<d1]. Fin (real (d2 * (d3 * (d4 * 1)))))"
    using 2 by (intro arg_cong [where f = sum_list] map_cong) simp_all
  then have "tsum x = Fin (real (d1 * (d2 * (d3 * (d4 * 1)))))"
    unfolding tsum_def assms(2) prod.case
    by (simp only: sum_list_const_one length_upt diff_zero)
  then show ?thesis by (simp add: mult.assoc)
qed

lemma bdim_Inr: "bdim m n = Inr d \<Longrightarrow> i < d \<Longrightarrow> bidx m i < m \<and> bidx n i < n"
  by (auto simp: bdim_def bidx_def split: if_splits)

lemma broadcast_dims_same [simp]: "broadcast_dims s s = Inr s"
  by (cases s) (simp add: broadcast_dims_def bdim_def)

lemma broadcast_dims_Inr:
  "broadcast_dims (a1, a2, a3, a4) (b1, b2, b3, b4) = Inr (d1, d2, d3, d4) \<longleftrightarrow>
     bdim a1 b1 = Inr d1 \<and> bdim a2 b2 = Inr d2 \<and> bdim a3 b3 = Inr d3 \<and> bdim a4 b4 = Inr d4"
  by (auto simp: broadcast_dims_def and_then_eq_Inr)

lemma bget_left:
  assumes "tall P x" and "broadcast_dims (dims x) (dims y) = Inr (d1, d2, d3, d4)"
    and "b < d1" "c < d2" "h < d3" "w < d4"
  shows "P (bget x b c h w)"
proof -
  obtain a1 a2 a3 a4 where x: "dims x = (a1, a2, a3, a4)" by (cases "dims x") auto
  obtain b1 b2 b3 b4 where y: "dims y = (b1, b2, b3, b4)" by (cases "dims y") auto
  from assms(2) have "bdim a1 b1 = Inr d1" "bdim a2 b2 = Inr d2" "bdim a3 b3 = Inr d3"
    "bdim a4 b4 = Inr d4"
    by (simp_all add: x y broadcast_dims_Inr)
  then have "bidx a1 b < a1" "bidx a2 c < a2" "bidx a3 h < a3" "bidx a4 w < a4"
    using assms(3-6) by (auto dest: bdim_Inr)
  then show ?thesis using tallD [OF assms(1) x] by (simp add: bget_def x)
qed

lemma bget_right:
  assumes "tall P y" and "broadcast_dims (dims x) (dims y) = Inr (d1, d2, d3, d4)"
    and "b < d1" "c < d2" "h < d3" "w < d4"
  shows "P (bget y b c h w)"
proof -
  obtain a1 a2 a3 a4 where x: "dims x = (a1, a2, a3, a4)" by (cases "dims x") auto
  obtain b1 b2 b3 b4 where y: "dims y = (b1, b2, b3, b4)" by (cases "dims y") auto
  from assms(2) have "bdim a1 b1 = Inr d1" "bdim a2 b2 = Inr d2" "bdim a3 b3 = Inr d3"
    "bdim a4 b4 = Inr d4"
    by (simp_all add: x y broadcast_dims_Inr)
  then have "bidx b1 b < b1" "bidx b2 c < b2" "bidx b3 h < b3" "bidx b4 w < b4"
    using assms(3-6) by (auto dest: bdim_Inr)
  then show ?thesis using tallD [OF assms(1) y] by (simp add: bget_def y)
qed

lemma tbin_eq_Inr:
  "tbin f x y = Inr z \<longleftrightarrow>
     (\<exists>d. broadcast_dims (dims x) (dims y) = Inr d \<and>
          z = \<lparr>dims = d, elt = (\<lambda>b c h w. f (bget x b c h w) (bget y b c h w))\<rparr>)"
  by (auto simp: tbin_def and_then_eq_Inr)

lemma tall_tbin:
  assumes "tbin f x y = Inr z" and "tall P x" and "tall Q y"
    and "\<And>a b. P a \<Longrightarrow> Q b \<Longrightarrow> S (f a b)"
  shows "tall S z"
proof -
  from assms(1) obtain d where d: "broadcast_dims (dims x) (dims y) = Inr d" and
    z: "z = \<lparr>dims = d, elt = (\<lambda>b c h w. f (bget x b c h w) (bget y b c h w))\<rparr>"
    by (auto simp: tbin_eq_Inr)
  obtain d1 d2 d3 d4 where dd: "d = (d1, d2, d3, d4)" by (cases d) auto
  show ?thesis
  proof (rule tallI)
    show "dims z = (d1, d2, d3, d4)" by (simp add: z dd)
  next
    fix b c h w assume r: "b < d1" "c < d2" "h < d3" "w < d4"
    have "P (bget x b c h w)" "Q (bget y b c h w)"
      using bget_left [OF assms(2) d [unfolded dd] r] bget_right [OF assms(3) d [unfolded dd] r]
      by simp_all
    then show "S (elt z b c h w)" by (simp add: z assms(4))
  qed
qed

lemma tall_tmap: "tall P x \<Longrightarrow> (\<And>a. P a \<Longrightarrow> Q (f a)) \<Longrightarrow> tall Q (tmap f x)"
  by (auto simp: tall_iff tmap_def split: prod.splits)

lemma dims_tmap [simp]: "dims (tmap f x) = dims x"
  by (simp add: tmap_def)

lemma dims_mean1: "dims x = (d1, d2, d3, d4) \<Longrightarrow> dims (mean1 x) = (d1, 1, d3, d4)"
  by (simp add: mean1_def)

lemma tall_mean1_zero:
  assumes "tall (\<lambda>v. v = Fin 0) x" and "dims x = (d1, d2, d3, d4)" and "0 < d2"
  shows "tall (\<lambda>v. v = Fin 0) (mean1 x)"
proof (rule tallI)
  show "dims (mean1 x) = (d1, 1, d3, d4)" using assms(2) by (rule dims_mean1)
next
  fix b c h w :: nat assume r: "b < d1" "c < 1" "h < d3" "w < d4"
  have "(\<Sum>c'\<leftarrow>[0..<d2]. elt x b c' h w) = Fin 0"
    using tallD [OF assms(1,2)] r by (intro sum_list_all_zero) simp
  then show "elt (mean1 x) b c h w = Fin 0"
    using assms(3) by (simp add: mean1_def assms(2))
qed

section \<open>The loops of \<^verbatim>\<open>compute_losses\<close> as sums\<close>

lemma frame_loop_Inr:
  "frame_loop L opt inputs outputs scale fs (a, b, c) = Inr (a', b', c') \<longleftrightarrow>
     (\<exists>terms. map (frame_terms L opt inputs outputs scale) fs = map Inr terms \<and>
        a' = a + (\<Sum>(r, t, c) \<leftarrow> terms. r) \<and>
        b' = b + (\<Sum>(r, t, c) \<leftarrow> terms. t) \<and>
        c' = c + (\<Sum>(r, t, c) \<leftarrow> terms. c))"
proof (induction fs arbitrary: a b c)
  case Nil
  then show ?case by auto
next
  case (Cons f fs)
  show ?case
  proof (cases "frame_terms L opt inputs outputs scale f")
    case (Inl e)
    then show ?thesis by auto
  next
    case (Inr tr)
    obtain r t u where tr: "tr = (r, t, u)" by (cases tr) auto
    have "frame_loop L opt inputs outputs scale (f # fs) (a, b, c) =
            frame_loop L opt inputs outputs scale fs (a + r, b + t, c + u)"
      by (simp add: Inr tr)
    also have "\<dots> = Inr (a', b', c') \<longleftrightarrow>
      (\<exists>terms. map (frame_terms L opt inputs outputs scale) fs = map Inr terms \<and>
         a' = a + r + (\<Sum>(r, t, c) \<leftarrow> terms. r) \<and>
         b' = b + t + (\<Sum>(r, t, c) \<leftarrow> terms. t) \<and>
         c' = c + u + (\<Sum>(r, t, c) \<leftarrow> terms. c))"
      by (rule Cons.IH)
    also have "\<dots> \<longleftrightarrow>
      (\<exists>terms. map (frame_terms L opt inputs outputs scale) (f # fs) = map Inr terms \<and>
         a' = a + (\<Sum>(r, t, c) \<leftarrow> terms. r) \<and>
         b' = b + (\<Sum>(r, t, c) \<leftarrow> terms. t) \<and>
         c' = c + (\<Sum>(r, t, c) \<leftarrow> terms. c))" (is "?A \<longleftrightarrow> ?B")
    proof
      assume ?A
      then obtain terms where
        "map (frame_terms L opt inputs outputs scale) fs = map Inr terms"
        "a' = a + r + (\<Sum>(r, t, c) \<leftarrow> terms. r)"
        "b' = b + t + (\<Sum>(r, t, c) \<leftarrow> terms. t)"
        "c' = c + u + (\<Sum>(r, t, c) \<leftarrow> terms. c)"
        by blast
      then show ?B
        by (intro exI [of _ "(r, t, u) # terms"]) (simp add: Inr tr add.assoc)
    next
      assume ?B
      then obtain terms where
        m: "map (frame_terms L opt inputs outputs scale) (f # fs) = map Inr terms" and
        s: "a' = a + (\<Sum>(r, t, c) \<leftarrow> terms. r)"
           "b' = b + (\<Sum>(r, t, c) \<leftarrow> terms. t)"
           "c' = c + (\<Sum>(r, t, c) \<leftarrow> terms. c)"
        by blast
      from m obtain rest where terms: "terms = tr # rest" and
        rest: "map (frame_terms L opt inputs outputs scale) fs = map Inr rest"
        by (cases terms) (auto simp: Inr)
      show ?A
        using s rest by (intro exI [of _ rest]) (simp add: terms tr add.assoc)
    qed
    finally show ?thesis .
  qed
qed

lemma frame_loop_Inl:
  "(\<exists>e. frame_loop L opt inputs outputs scale fs acc = Inl e) \<longleftrightarrow>
     (\<exists>f \<in> set fs. \<exists>e. frame_terms L opt inputs outputs scale f = Inl e)"
proof (induction fs arbitrary: acc)
  case Nil
  then show ?case by simp
next
  case (Cons f fs)
  obtain a b c where acc: "acc = (a, b, c)" by (cases acc) auto
  show ?case
  proof (cases "frame_terms L opt inputs outputs scale f")
    case (Inl e)
    then show ?thesis by (auto simp: acc)
  next
    case (Inr tr)
    then show ?thesis
      using Cons.IH by (cases tr) (auto simp: acc)
  qed
qed

lemma scale_loss_Inr:
  "scale_loss L opt inputs outputs scale = Inr v \<longleftrightarrow>
     (\<exists>disp color terms nd smooth_loss.
        outputs (Disp scale) = Some disp \<and>
        inputs (InColor (Frame 0) scale) = Some color \<and>
        map (frame_terms L opt inputs outputs scale) (tl (frame_ids opt)) = map Inr terms \<and>
        norm_disp disp = Inr nd \<and>
        get_smooth_loss L nd color = Inr smooth_loss \<and>
        v = combine opt scale (\<Sum>(r, t, c) \<leftarrow> terms. r) (\<Sum>(r, t, c) \<leftarrow> terms. t)
              (\<Sum>(r, t, c) \<leftarrow> terms. c) smooth_loss)"
  unfolding scale_loss_def zero_fl_def [symmetric]
  by (auto simp: and_then_eq_Inr getitem_eq_Inr frame_loop_Inr split: prod.splits)

lemma scale_loop_total:
  "scale_loop L opt inputs outputs ss (tot, losses) = Inr (tot', losses') \<Longrightarrow>
     \<exists>per_scale. map (scale_loss L opt inputs outputs) ss = map Inr per_scale \<and>
        tot' = tot + sum_list per_scale"
proof (induction ss arbitrary: tot losses)
  case Nil
  then show ?case by simp
next
  case (Cons s ss)
  from Cons.prems obtain v where v: "scale_loss L opt inputs outputs s = Inr v" and
    rest: "scale_loop L opt inputs outputs ss (tot + v, losses(LossAt s \<mapsto> v))
             = Inr (tot', losses')"
    by (auto simp: and_then_eq_Inr)
  from Cons.IH [OF rest] obtain per_scale where
    "map (scale_loss L opt inputs outputs) ss = map Inr per_scale"
    "tot' = tot + v + sum_list per_scale"
    by blast
  then show ?case
    by (intro exI [of _ "v # per_scale"]) (simp add: v add.assoc)
qed

lemma scale_loop_entries:
  "scale_loop L opt inputs outputs ss (tot, losses) = Inr (tot', losses') \<Longrightarrow>
     losses' (LossAt s) =
       (if s \<in> set ss
        then (case scale_loss L opt inputs outputs s of Inr v \<Rightarrow> Some v | Inl _ \<Rightarrow> None)
        else losses (LossAt s))"
proof (induction ss arbitrary: tot losses)
  case Nil
  then show ?case by simp
next
  case (Cons a ss)
  from Cons.prems obtain v where v: "scale_loss L opt inputs outputs a = Inr v" and
    rest: "scale_loop L opt inputs outputs ss (tot + v, losses(LossAt a \<mapsto> v))
             = Inr (tot', losses')"
    by (auto simp: and_then_eq_Inr)
  from Cons.IH [OF rest] show ?case
    by (auto simp: v)
qed

section \<open>The masked, mask-normalised mean\<close>

lemma fsub_self_Fin: "is_fin a \<Longrightarrow> fsub a a = Fin 0"
  by (cases a) (simp_all add: fsub_def is_fin_def)

lemma fmul_zero_fin: "is_fin b \<Longrightarrow> fmul (Fin 0) b = Fin 0"
  by (cases b) (simp_all add: is_fin_def)

lemma fmul_by_zero: "fmul a (Fin 0) = Fin 0 \<or> fmul a (Fin 0) = NaN"
  by (cases a) simp_all

lemma fdiv_NaN [simp]: "fdiv NaN b = NaN" "fdiv a NaN = NaN"
  by (cases b; simp) (cases a; simp)

lemma fmul_NaN [simp]: "fmul NaN b = NaN" "fmul a NaN = NaN"
  by (cases b; simp) (cases a; simp)

lemma tbin_same:
  assumes "tall P x" and "\<And>a. P a \<Longrightarrow> S (f a a)"
  shows "\<exists>z. tbin f x x = Inr z \<and> dims z = dims x \<and> tall S z"
proof -
  let ?z = "\<lparr>dims = dims x, elt = (\<lambda>b c h w. f (bget x b c h w) (bget x b c h w))\<rparr>"
  obtain d1 d2 d3 d4 where d: "dims x = (d1, d2, d3, d4)" by (cases "dims x") auto
  have z: "tbin f x x = Inr ?z"
    by (simp add: tbin_def)
  have "tall S ?z"
  proof (rule tallI)
    show "dims ?z = (d1, d2, d3, d4)" by (simp add: d)
  next
    fix b c h w assume r: "b < d1" "c < d2" "h < d3" "w < d4"
    have "broadcast_dims (dims x) (dims x) = Inr (d1, d2, d3, d4)"
      by (simp add: d)
    from bget_left [OF assms(1) this r] have "P (bget x b c h w)" .
    then show "S (elt ?z b c h w)" by (simp add: assms(2))
  qed
  with z show ?thesis by (intro exI [of _ ?z]) simp
qed

lemma masked_mean_zero:
  assumes "tall (\<lambda>v. v = Fin 0) x" and "tall is_fin occu"
    and "broadcast_dims (dims x) (dims occu) = Inr d"
    and "tsum occu = Fin s" and "s \<noteq> 0"
  shows "masked_mean x occu = Inr (Fin 0)"
proof -
  from assms(3) obtain p where p: "tbin fmul x occu = Inr p"
    by (simp add: tbin_def)
  have "tall (\<lambda>v. v = Fin 0) p"
    using p assms(1,2) by (rule tall_tbin) (simp add: fmul_zero_fin)
  then have "tsum p = Fin 0" by (rule tsum_all_zero)
  then show ?thesis
    using p assms(4,5) by (simp add: masked_mean_def)
qed

lemma masked_mean_zero_mask:
  assumes "tall (\<lambda>v. v = Fin 0) occu" and "masked_mean x occu = Inr v"
  shows "v = NaN"
proof -
  from assms(2) obtain p where p: "tbin fmul x occu = Inr p" and
    v: "v = fdiv (tsum p) (tsum occu)"
    by (auto simp: masked_mean_def and_then_eq_Inr)
  have "tall (\<lambda>_. True) x" by (simp add: tall_iff split: prod.splits)
  with p have "tall (\<lambda>v. v = Fin 0 \<or> v = NaN) p"
    using assms(1) by (rule tall_tbin) (use fmul_by_zero in auto)
  then have "tsum p = Fin 0 \<or> tsum p = NaN" by (rule tsum_zero_or_NaN)
  moreover have "tsum occu = Fin 0" using assms(1) by (rule tsum_all_zero)
  ultimately show ?thesis by (auto simp: v)
qed

lemma masked_mean_returns:
  "broadcast_dims (dims x) (dims occu) = Inr d \<Longrightarrow> \<exists>v. masked_mean x occu = Inr v"
  by (simp add: masked_mean_def tbin_def)

lemma compute_reprojection_loss_equal:
  assumes "dims p = (B, C, H, W)" and "0 < C" and "tall is_fin p"
    and "\<not> no_ssim opt \<Longrightarrow>
           \<exists>z. ssim L p p = Inr z \<and> dims z = dims p \<and> tall (\<lambda>v. v = Fin 0) z"
  shows "\<exists>l. compute_reprojection_loss L opt p p = Inr l \<and> dims l = (B, 1, H, W) \<and>
             tall (\<lambda>v. v = Fin 0) l"
proof -
  from tbin_same [OF assms(3), of "\<lambda>v. v = Fin 0" fsub] obtain diff where
    diff: "tbin fsub p p = Inr diff" "dims diff = dims p" "tall (\<lambda>v. v = Fin 0) diff"
    by (auto simp: fsub_self_Fin)
  let ?l1 = "mean1 (tmap fabs diff)"
  have a: "tall (\<lambda>v. v = Fin 0) (tmap fabs diff)"
    using diff(3) by (rule tall_tmap) simp
  have da: "dims (tmap fabs diff) = (B, C, H, W)"
    using diff(2) assms(1) by simp
  have l1: "tall (\<lambda>v. v = Fin 0) ?l1" "dims ?l1 = (B, 1, H, W)"
    using tall_mean1_zero [OF a da assms(2)] dims_mean1 [OF da] by simp_all
  show ?thesis
  proof (cases "no_ssim opt")
    case True
    then show ?thesis
      using diff(1) l1 by (simp add: compute_reprojection_loss_def Let_def)
  next
    case False
    from assms(4) [OF this] obtain z where
      z: "ssim L p p = Inr z" "dims z = dims p" "tall (\<lambda>v. v = Fin 0) z"
      by blast
    have dz: "dims z = (B, C, H, W)" using z(2) assms(1) by simp
    let ?s = "tmap (fmul (Fin (85 / 100))) (mean1 z)"
    let ?t = "tmap (fmul (Fin (15 / 100))) ?l1"
    have s: "tall (\<lambda>v. v = Fin 0) ?s" "dims ?s = (B, 1, H, W)"
      using tall_tmap [OF tall_mean1_zero [OF z(3) dz assms(2)], of "\<lambda>v. v = Fin 0"]
        dims_mean1 [OF dz]
      by simp_all
    have t: "tall (\<lambda>v. v = Fin 0) ?t" "dims ?t = (B, 1, H, W)"
      using tall_tmap [OF l1(1), of "\<lambda>v. v = Fin 0"] l1(2) by simp_all
    from s(2) t(2) obtain l where l: "tbin fadd ?s ?t = Inr l" and dl: "dims l = (B, 1, H, W)"
      by (auto simp: tbin_def)
    have "tall (\<lambda>v. v = Fin 0) l"
      using l s(1) t(1) by (rule tall_tbin) simp
    then show ?thesis
      using False diff(1) z(1) l dl by (simp add: compute_reprojection_loss_def Let_def)
  qed
qed

lemma sum_list_NaN: "NaN \<in> set xs \<Longrightarrow> sum_list xs = (NaN :: fl)"
  by (induction xs) auto

lemma combine_NaN [simp]: "combine opt scale NaN lt lc sm = NaN"
  by (simp add: combine_def)

lemma compute_losses_result:
  assumes "compute_losses L opt inputs outputs = Inr losses"
  shows "\<exists>per_scale. map (scale_loss L opt inputs outputs) (scales opt) = map Inr per_scale \<and>
           scales opt \<noteq> [] \<and>
           losses LossTotal = Some (fdiv (sum_list per_scale) (Fin (real (length (scales opt))))) \<and>
           (\<forall>i < length (scales opt). losses (LossAt (scales opt ! i)) = Some (per_scale ! i))"
proof -
  from assms obtain tot ls where
    loop: "scale_loop L opt inputs outputs (scales opt) (0, Map.empty) = Inr (tot, ls)" and
    ne: "num_scales opt \<noteq> 0" and
    losses: "losses = ls(LossTotal \<mapsto> fdiv tot (Fin (real (num_scales opt))))"
    by (auto simp: compute_losses_def and_then_eq_Inr split: if_splits)
  from scale_loop_total [OF loop] obtain per_scale where
    ps: "map (scale_loss L opt inputs outputs) (scales opt) = map Inr per_scale" and
    tot: "tot = sum_list per_scale"
    by auto
  have len: "length per_scale = length (scales opt)"
    using ps by (metis length_map)
  have "losses (LossAt (scales opt ! i)) = Some (per_scale ! i)" if "i < length (scales opt)" for i
  proof -
    have "scale_loss L opt inputs outputs (scales opt ! i) = Inr (per_scale ! i)"
      using ps that len by (metis nth_map)
    then show ?thesis
      using scale_loop_entries [OF loop, of "scales opt ! i"] that by (simp add: losses)
  qed
  then show ?thesis
    using ps ne tot by (auto simp: losses num_scales_def)
qed

section \<open>The reprojection and transform terms\<close>

text \<open>
  Claim C9. When the warped prediction and the registration target of a scale and a
  neighbor frame are the same tensor, with finite entries and at least one channel, and
  the backward occlusion mask is all ones on the same batch, height and width (not
  empty), the masked, mask-normalised reprojection term is zero. With SSIM switched on
  this needs the SSIM layer, which is not in the sources, to return zero dissimilarity
  for two equal images.
\<close>

theorem reprojection_zero_when_equal:
  assumes "outputs (Color frame_id scale) = Some p"
    and "outputs (R scale frame_id) = Some p"
    and "dims p = (B, C, H, W)" and "0 < B" and "0 < C" and "0 < H" and "0 < W"
    and "tall is_fin p"
    and "dims occu = (B, 1, H, W)" and "tall (\<lambda>v. v = Fin 1) occu"
    and "\<not> no_ssim opt \<Longrightarrow>
           \<exists>z. ssim L p p = Inr z \<and> dims z = dims p \<and> tall (\<lambda>v. v = Fin 0) z"
  shows "reprojection_term L opt outputs scale frame_id occu = Inr (Fin 0)"
proof -
  from compute_reprojection_loss_equal [OF assms(3,5,8,11)] obtain l where
    l: "compute_reprojection_loss L opt p p = Inr l" "dims l = (B, 1, H, W)"
       "tall (\<lambda>v. v = Fin 0) l"
    by blast
  have fin: "tall is_fin occu"
    using assms(10) by (rule tall_mono) (simp add: is_fin_def)
  have bc: "broadcast_dims (dims l) (dims occu) = Inr (B, 1, H, W)"
    by (simp add: l(2) assms(9))
  have s: "tsum occu = Fin (real (B * 1 * H * W))"
    using assms(10,9) by (rule tsum_all_one)
  have "real (B * 1 * H * W) \<noteq> 0"
    using assms(4,6,7) by simp
  from masked_mean_zero [OF l(3) fin bc s this] show ?thesis
    using assms(1,2) l(1) by (simp add: reprojection_term_def)
qed

theorem reprojection_zero_when_equal_witness:
  "outputs_eq (Color (Frame 1) 0) = Some img0 \<and> outputs_eq (R 0 (Frame 1)) = Some img0 \<and>
   tall is_fin img0 \<and> tall (\<lambda>v. v = Fin 1) ones_mask \<and> \<not> no_ssim opt0 \<and>
   reprojection_term layers0 opt0 outputs_eq 0 (Frame 1) ones_mask = Inr (Fin 0)"
proof -
  have 1: "outputs_eq (Color (Frame 1) 0) = Some img0" "outputs_eq (R 0 (Frame 1)) = Some img0"
    by (simp_all add: outputs_eq_def)
  have 2: "dims img0 = (1, 3, 1, 2)" "dims ones_mask = (1, 1, 1, 2)"
    by (simp_all add: img0_def ones_mask_def const_tensor_def)
  have 3: "tall is_fin img0"
    by (simp add: tall_def img0_def is_fin_def upt_rec)
  have 4: "tall (\<lambda>v. v = Fin 1) ones_mask"
    by (simp add: tall_def ones_mask_def const_tensor_def upt_rec)
  have 5: "\<exists>z. ssim layers0 img0 img0 = Inr z \<and> dims z = dims img0 \<and> tall (\<lambda>v. v = Fin 0) z"
    by (simp add: layers0_def tbin_def tall_def img0_def bget_def bidx_def fsub_def upt_rec)
  have "reprojection_term layers0 opt0 outputs_eq 0 (Frame 1) ones_mask = Inr (Fin 0)"
    using 5 by (intro reprojection_zero_when_equal [OF 1 2(1) _ _ _ _ 3 2(2) 4]) simp_all
  then show ?thesis using 1 3 4 by (simp add: opt0_def)
qed

text \<open>
  Claim C8. Both terms are a numerator divided by the sum of the detached backward
  occlusion mask (\<^const>\<open>masked_mean\<close>), and nothing tests that sum. When the mask of a
  neighbor frame is zero everywhere the divisor is zero, no error is raised, and
  whatever the two terms return is NaN; they do return NaN when the shapes fit. The
  loss of every scale and the final loss, when \<^verbatim>\<open>compute_losses\<close> returns them, are
  then NaN too: there is no fallback.
\<close>

theorem zero_mask_divides_by_zero:
  assumes "outputs (Omaskb 0 f) = Some occu"
    and "tall (\<lambda>v. v = Fin 0) occu"
    and "f \<in> set (tl (frame_ids opt))"
  shows "tsum (detach occu) = Fin 0 \<and>
    (\<forall>v. reprojection_term L opt outputs scale f (detach occu) = Inr v \<longrightarrow> v = NaN) \<and>
    (\<forall>v. transform_term outputs scale f (detach occu) = Inr v \<longrightarrow> v = NaN) \<and>
    (\<forall>r B C H W. outputs (R scale f) = Some r \<longrightarrow> dims r = (B, C, H, W) \<longrightarrow>
        dims occu = (B, 1, H, W) \<longrightarrow>
        transform_term outputs scale f (detach occu) = Inr NaN) \<and>
    (\<forall>pred target l d. outputs (Color f scale) = Some pred \<longrightarrow>
        outputs (R scale f) = Some target \<longrightarrow>
        compute_reprojection_loss L opt pred target = Inr l \<longrightarrow>
        broadcast_dims (dims l) (dims occu) = Inr d \<longrightarrow>
        reprojection_term L opt outputs scale f (detach occu) = Inr NaN) \<and>
    (\<forall>v. scale_loss L opt inputs outputs scale = Inr v \<longrightarrow> v = NaN) \<and>
    (\<forall>losses. compute_losses L opt inputs outputs = Inr losses \<longrightarrow>
        losses LossTotal = Some NaN \<and> (\<forall>s \<in> set (scales opt). losses (LossAt s) = Some NaN))"
proof -
  have z: "tall (\<lambda>v. v = Fin 0) (detach occu)"
    using assms(2) by (simp add: detach_def)
  have sum: "tsum (detach occu) = Fin 0"
    using z by (rule tsum_all_zero)
  have rep: "v = NaN" if "reprojection_term L opt outputs s f (detach occu) = Inr v" for v s
    using that masked_mean_zero_mask [OF z]
    by (auto simp: reprojection_term_def and_then_eq_Inr)
  have tra: "v = NaN" if "transform_term outputs s f (detach occu) = Inr v" for v s
    using that masked_mean_zero_mask [OF z]
    by (auto simp: transform_term_def and_then_eq_Inr)
  have tra_ret: "transform_term outputs scale f (detach occu) = Inr NaN"
    if r: "outputs (R scale f) = Some r" and dr: "dims r = (B, C, H, W)"
      and dm: "dims occu = (B, 1, H, W)" for r B C H W
  proof -
    obtain diff where diff: "tbin fsub r r = Inr diff" "dims diff = dims r"
      using tbin_same [of "\<lambda>_. True" r "\<lambda>_. True" fsub]
      by (auto simp: tall_iff split: prod.splits)
    have "dims (mean1 (tmap fabs diff)) = (B, 1, H, W)"
      using diff(2) dr by (simp add: dims_mean1)
    then have "broadcast_dims (dims (mean1 (tmap fabs diff))) (dims (detach occu)) = Inr (B, 1, H, W)"
      by (simp add: dm detach_def)
    from masked_mean_returns [OF this] obtain v where
      "masked_mean (mean1 (tmap fabs diff)) (detach occu) = Inr v"
      by blast
    then have "transform_term outputs scale f (detach occu) = Inr v"
      using r diff(1) by (simp add: transform_term_def detach_def)
    with tra [of scale v] show ?thesis by simp
  qed
  have rep_ret: "reprojection_term L opt outputs scale f (detach occu) = Inr NaN"
    if "outputs (Color f scale) = Some pred" "outputs (R scale f) = Some target"
      "compute_reprojection_loss L opt pred target = Inr l"
      "broadcast_dims (dims l) (dims occu) = Inr d" for pred target l d
  proof -
    from masked_mean_returns [of l "detach occu" d] that(4) obtain v where
      "masked_mean l (detach occu) = Inr v"
      by (auto simp: detach_def)
    then have "reprojection_term L opt outputs scale f (detach occu) = Inr v"
      using that(1-3) by (simp add: reprojection_term_def)
    with rep [of scale v] show ?thesis by simp
  qed
  have sl: "v = NaN" if "scale_loss L opt inputs outputs s = Inr v" for v s
  proof -
    from that obtain terms smooth_loss where
      terms: "map (frame_terms L opt inputs outputs s) (tl (frame_ids opt)) = map Inr terms" and
      v: "v = combine opt s (\<Sum>(r, t, c) \<leftarrow> terms. r) (\<Sum>(r, t, c) \<leftarrow> terms. t)
                (\<Sum>(r, t, c) \<leftarrow> terms. c) smooth_loss"
      unfolding scale_loss_Inr by blast
    from terms assms(3) have "frame_terms L opt inputs outputs s f \<in> Inr ` set terms"
      by (metis image_eqI image_set)
    then obtain r t c where rtc: "(r, t, c) \<in> set terms"
      "frame_terms L opt inputs outputs s f = Inr (r, t, c)"
      by auto
    from rtc(2) have "reprojection_term L opt outputs s f (detach occu) = Inr r"
      by (auto simp: frame_terms_def assms(1) and_then_eq_Inr Let_def)
    then have "r = NaN" by (rule rep)
    with rtc(1) have "NaN \<in> set (map (\<lambda>(r, t, c). r) terms)"
      by force
    then have "(\<Sum>(r, t, c) \<leftarrow> terms. r) = NaN" by (rule sum_list_NaN)
    then show ?thesis by (simp add: v)
  qed
  have cl: "losses LossTotal = Some NaN \<and> (\<forall>s \<in> set (scales opt). losses (LossAt s) = Some NaN)"
    if "compute_losses L opt inputs outputs = Inr losses" for losses
  proof -
    from compute_losses_result [OF that] obtain per_scale where
      ps: "map (scale_loss L opt inputs outputs) (scales opt) = map Inr per_scale" and
      ne: "scales opt \<noteq> []" and
      tot: "losses LossTotal = Some (fdiv (sum_list per_scale) (Fin (real (length (scales opt)))))" and
      ent: "\<And>i. i < length (scales opt) \<Longrightarrow> losses (LossAt (scales opt ! i)) = Some (per_scale ! i)"
      by blast
    have len: "length per_scale = length (scales opt)"
      using ps by (metis length_map)
    have all: "per_scale ! i = NaN" if "i < length (scales opt)" for i
    proof -
      have "scale_loss L opt inputs outputs (scales opt ! i) = Inr (per_scale ! i)"
        using ps that len by (metis nth_map)
      then show ?thesis by (rule sl)
    qed
    have "per_scale ! 0 = NaN" "per_scale \<noteq> []"
      using all [of 0] ne len by auto
    then have "NaN \<in> set per_scale"
      by (metis nth_mem length_greater_0_conv)
    then have "sum_list per_scale = NaN" by (rule sum_list_NaN)
    moreover have "losses (LossAt s) = Some NaN" if "s \<in> set (scales opt)" for s
    proof -
      from that obtain i where "i < length (scales opt)" "scales opt ! i = s"
        by (auto simp: in_set_conv_nth)
      then show ?thesis using ent [of i] all [of i] by simp
    qed
    ultimately show ?thesis by (simp add: tot)
  qed
  show ?thesis
    using sum rep tra tra_ret rep_ret sl cl by blast
qed

theorem zero_mask_divides_by_zero_witness:
  "outputs_zero_mask (Omaskb 0 (Frame 1)) = Some zero_mask \<and>
   tall (\<lambda>v. v = Fin 0) zero_mask \<and>
   Frame 1 \<in> set (tl (frame_ids opt3)) \<and>
   tsum (detach zero_mask) = Fin 0 \<and>
   transform_term outputs_zero_mask 0 (Frame 1) (detach zero_mask) = Inr NaN \<and>
   reprojection_term layers0 opt3 outputs_zero_mask 0 (Frame 1) (detach zero_mask) = Inr NaN \<and>
   scale_loss layers0 opt3 inputs0 outputs_zero_mask 0 = Inr NaN"
proof -
  have 1: "outputs_zero_mask (Omaskb 0 (Frame 1)) = Some zero_mask"
    by (simp add: outputs_zero_mask_def)
  have 2: "tall (\<lambda>v. v = Fin 0) zero_mask"
    by (simp add: tall_def zero_mask_def const_tensor_def upt_rec)
  have 3: "Frame 1 \<in> set (tl (frame_ids opt3))"
    by (simp add: opt3_def opt0_def)
  note facts = zero_mask_divides_by_zero [where outputs = outputs_zero_mask and f = "Frame 1"
      and occu = zero_mask and opt = opt3 and L = layers0 and scale = 0 and inputs = inputs0,
      OF 1 2 3]
  have r: "outputs_zero_mask (R 0 (Frame 1)) = Some (const_tensor (1, 3, 1, 2) (Fin 0))"
    and c: "outputs_zero_mask (Color (Frame 1) 0) = Some (const_tensor (1, 3, 1, 2) (Fin 1))"
    by (simp_all add: outputs_zero_mask_def outputs1_def)
  have d: "dims (const_tensor (1, 3, 1, 2) (Fin 0)) = (1, 3, 1, 2)" "dims zero_mask = (1, 1, 1, 2)"
    by (simp_all add: const_tensor_def zero_mask_def)
  have t: "transform_term outputs_zero_mask 0 (Frame 1) (detach zero_mask) = Inr NaN"
    by (rule facts [THEN conjunct2, THEN conjunct2, THEN conjunct2, THEN conjunct1,
          rule_format, OF r d])
  obtain l where l: "compute_reprojection_loss layers0 opt3
      (const_tensor (1, 3, 1, 2) (Fin 1)) (const_tensor (1, 3, 1, 2) (Fin 0)) = Inr l"
    "dims l = (1, 1, 1, 2)"
    by (simp add: compute_reprojection_loss_def opt3_def tbin_def const_tensor_def mean1_def
        tmap_def Let_def)
  have "broadcast_dims (dims l) (dims zero_mask) = Inr (1, 1, 1, 2)"
    by (simp add: l(2) d(2))
  then have p: "reprojection_term layers0 opt3 outputs_zero_mask 0 (Frame 1)
      (detach zero_mask) = Inr NaN"
    by (rule facts [THEN conjunct2, THEN conjunct2, THEN conjunct2, THEN conjunct2,
          THEN conjunct1, rule_format, OF c r l(1)])
  have "scale_loss layers0 opt3 inputs0 outputs_zero_mask 0 = Inr NaN"
    by code_simp
  with facts [THEN conjunct1] 1 2 3 t p show ?thesis by simp
qed

text \<open>
  Claim C3, as amended. For a scale and a neighbor frame whose registration tensor has
  finite entries and at least one channel, and whose backward occlusion mask has finite
  entries and a sum that is not zero, the transform-consistency term is zero: it is the
  masked mean of the absolute difference between the tensor and its detached copy,
  which is zero at every entry. A zero term adds nothing to the loss of the scale,
  whatever finite weight \<^verbatim>\<open>transform_constraint\<close> has.
\<close>

theorem transform_term_zero:
  assumes "outputs (R scale f) = Some r"
    and "dims r = (B, C, H, W)" and "0 < C" and "tall is_fin r"
    and "tall is_fin occu" and "broadcast_dims (B, 1, H, W) (dims occu) = Inr d"
    and "tsum occu = Fin s" and "s \<noteq> 0"
  shows "transform_term outputs scale f occu = Inr (Fin 0) \<and>
    (\<forall>w. transform_constraint opt = Fin w \<longrightarrow>
       combine opt scale lr (Fin 0) lc sm =
         fdiv lr (Fin 2) + fmul (transform_smoothness opt) (fdiv lc (Fin 2))
           + fdiv (fmul (disparity_smoothness opt) sm) (Fin (2 ^ scale)))"
proof -
  from tbin_same [OF assms(4), of "\<lambda>v. v = Fin 0" fsub] obtain diff where
    diff: "tbin fsub r r = Inr diff" "dims diff = dims r" "tall (\<lambda>v. v = Fin 0) diff"
    by (auto simp: fsub_self_Fin)
  have a: "tall (\<lambda>v. v = Fin 0) (tmap fabs diff)"
    using diff(3) by (rule tall_tmap) simp
  have da: "dims (tmap fabs diff) = (B, C, H, W)"
    using diff(2) assms(2) by simp
  have m: "tall (\<lambda>v. v = Fin 0) (mean1 (tmap fabs diff))"
    "dims (mean1 (tmap fabs diff)) = (B, 1, H, W)"
    using tall_mean1_zero [OF a da assms(3)] dims_mean1 [OF da] by simp_all
  have "broadcast_dims (dims (mean1 (tmap fabs diff))) (dims occu) = Inr d"
    using assms(6) by (simp add: m(2))
  from masked_mean_zero [OF m(1) assms(5) this assms(7,8)]
  have "transform_term outputs scale f occu = Inr (Fin 0)"
    using assms(1) diff(1) by (simp add: transform_term_def detach_def)
  moreover have "combine opt scale lr (Fin 0) lc sm =
      fdiv lr (Fin 2) + fmul (transform_smoothness opt) (fdiv lc (Fin 2))
        + fdiv (fmul (disparity_smoothness opt) sm) (Fin (2 ^ scale))"
    if "transform_constraint opt = Fin w" for w
    by (simp add: combine_def that)
  ultimately show ?thesis by blast
qed

theorem transform_term_zero_witness:
  "outputs1 (R 0 (Frame 1)) = Some (const_tensor (1, 3, 1, 2) (Fin 0)) \<and>
   tall is_fin ones_mask \<and> tsum ones_mask = Fin 2 \<and>
   transform_term outputs1 0 (Frame 1) ones_mask = Inr (Fin 0) \<and>
   combine opt0 0 (Fin 1) (Fin 0) (Fin 4) (Fin 8) = Fin (1 / 2 + 4 / 200 + 8 / 10000)"
proof -
  have 1: "outputs1 (R 0 (Frame 1)) = Some (const_tensor (1, 3, 1, 2) (Fin 0))"
    by (simp add: outputs1_def)
  have 2: "dims (const_tensor (1, 3, 1, 2) (Fin 0)) = (1, 3, 1, 2)"
    by (simp add: const_tensor_def)
  have 3: "tall is_fin (const_tensor (1, 3, 1, 2) (Fin 0))"
    by (simp add: tall_def const_tensor_def is_fin_def upt_rec)
  have 4: "tall is_fin ones_mask"
    by (simp add: tall_def ones_mask_def const_tensor_def is_fin_def upt_rec)
  have 5: "broadcast_dims (1, 1, 1, 2) (dims ones_mask) = Inr (1, 1, 1, 2)"
    by (simp add: ones_mask_def const_tensor_def)
  have 6: "tsum ones_mask = Fin 2"
    by (simp add: tsum_def ones_mask_def const_tensor_def upt_rec fl_zero)
  have 7: "transform_constraint opt0 = Fin (1 / 100)"
    by (simp add: opt0_def)
  have "transform_term outputs1 0 (Frame 1) ones_mask = Inr (Fin 0) \<and>
    (\<forall>w. transform_constraint opt0 = Fin w \<longrightarrow>
       combine opt0 0 (Fin 1) (Fin 0) (Fin 4) (Fin 8) =
         fdiv (Fin 1) (Fin 2) + fmul (transform_smoothness opt0) (fdiv (Fin 4) (Fin 2))
           + fdiv (fmul (disparity_smoothness opt0) (Fin 8)) (Fin (2 ^ 0)))"
    by (rule transform_term_zero [where B = 1 and C = 3 and H = 1 and W = 2
          and r = "const_tensor (1, 3, 1, 2) (Fin 0)" and d = "(1, 1, 1, 2)" and s = 2])
       (use 1 2 3 4 5 6 in simp_all)
  note both = this
  have a: "transform_term outputs1 0 (Frame 1) ones_mask = Inr (Fin 0)"
    using both by (rule conjunct1)
  have b: "combine opt0 0 (Fin 1) (Fin 0) (Fin 4) (Fin 8) =
      fdiv (Fin 1) (Fin 2) + fmul (transform_smoothness opt0) (fdiv (Fin 4) (Fin 2))
        + fdiv (fmul (disparity_smoothness opt0) (Fin 8)) (Fin (2 ^ 0))"
    by (rule both [THEN conjunct2, rule_format, OF 7])
  have c: "combine opt0 0 (Fin 1) (Fin 0) (Fin 4) (Fin 8) = Fin (1 / 2 + 4 / 200 + 8 / 10000)"
    unfolding b by (simp add: opt0_def)
  show ?thesis using 1 4 6 a c by simp
qed

theorem transform_term_zero_mask_counterexample:
  "outputs_zero_mask (R 0 (Frame 1)) = Some (const_tensor (1, 3, 1, 2) (Fin 0)) \<and>
   outputs_zero_mask (Omaskb 0 (Frame 1)) = Some zero_mask \<and>
   transform_term outputs_zero_mask 0 (Frame 1) (detach zero_mask) = Inr NaN \<and>
   transform_term outputs_zero_mask 0 (Frame 1) (detach zero_mask) \<noteq> Inr (Fin 0)"
proof -
  have "transform_term outputs_zero_mask 0 (Frame 1) (detach zero_mask) = Inr NaN"
    by code_simp
  then show ?thesis
    by (simp add: outputs_zero_mask_def outputs1_def)
qed

section \<open>The loss of a scale and the final loss\<close>

lemma frame_terms_frame_ids [simp]:
  "frame_terms L (opt\<lparr>frame_ids := x\<rparr>) = frame_terms L opt"
  by (intro ext)
     (simp add: frame_terms_def reprojection_term_def compute_reprojection_loss_def)

lemma combine_frame_ids [simp]: "combine (opt\<lparr>frame_ids := x\<rparr>) = combine opt"
  by (intro ext) (simp add: combine_def)











section \<open>Pose prediction stops at an undefined name\<close>

lemma trim_conf_unbound: "trim_conf N genv None = Inl (UnboundLocalError ''conf'')"
  by (simp add: trim_conf_def load_fast_def)

lemma pose_body_unbound:
  "pose_body N genv fill pose_feats f_i (None, outputs) \<noteq> Inr res"
  by (auto simp: pose_body_def and_then_eq_Inr trim_conf_unbound)

lemma pose_loop_unbound:
  "\<exists>f \<in> set fs. f \<noteq> Stereo \<Longrightarrow> pose_loop N genv fill pose_feats fs (None, outputs) \<noteq> Inr res"
proof (induction fs)
  case Nil
  then show ?case by simp
next
  case (Cons f fs)
  show ?case
  proof (cases "f = Stereo")
    case True
    with Cons show ?thesis by simp
  next
    case False
    then show ?thesis
      using pose_body_unbound [of N genv fill pose_feats f outputs]
      by (auto simp: and_then_eq_Inr)
  qed
qed

lemma build_feats_Inr:
  "\<forall>f \<in> set fs. \<exists>v. get f = Inr v \<Longrightarrow>
     \<exists>d'. build_feats get fs d = Inr d' \<and> (\<forall>f. f \<in> set fs \<or> f \<in> dom d \<longrightarrow> f \<in> dom d')"
proof (induction fs arbitrary: d)
  case Nil
  then show ?case by simp
next
  case (Cons a fs)
  from Cons.prems obtain v where v: "get a = Inr v" by auto
  from Cons.prems have "\<forall>f \<in> set fs. \<exists>v. get f = Inr v" by simp
  from Cons.IH [OF this, of "d(a \<mapsto> v)"] obtain d' where
    "build_feats get fs (d(a \<mapsto> v)) = Inr d'"
    "\<forall>f. f \<in> set fs \<or> f \<in> dom (d(a \<mapsto> v)) \<longrightarrow> f \<in> dom d'"
    by blast
  then show ?case by (auto simp: v)
qed

lemma pose_body_name_error:
  assumes "genv ''h_side'' = None"
    and "f_i \<in> dom pose_feats" and "Frame 0 \<in> dom pose_feats"
    and "\<And>xs. \<exists>y. cat N xs = Inr y"
    and "\<And>x. \<exists>y. position_encoder N x = Inr y"
    and "\<And>x. \<exists>y. position N x = Inr y"
  shows "pose_body N genv fill pose_feats f_i st = Inl (NameError ''h_side'')"
proof -
  obtain conf outputs where st: "st = (conf, outputs)" by (cases st) auto
  from assms(2,3) obtain a b where ab: "pose_feats f_i = Some a" "pose_feats (Frame 0) = Some b"
    by auto
  obtain c1 where c1: "cat N [a, b] = Inr c1" using assms(4) by blast
  obtain p1 where p1: "position_encoder N c1 = Inr p1" using assms(5) by blast
  obtain c2 where c2: "cat N [b, a] = Inr c2" using assms(4) by blast
  obtain p2 where p2: "position_encoder N c2 = Inr p2" using assms(5) by blast
  obtain o0 where o0: "position N p1 = Inr o0" using assms(6) by blast
  obtain o1 where o1: "position N p2 = Inr o1" using assms(6) by blast
  have "trim_flow N genv p1 = Inl (NameError ''h_side'')"
    by (simp add: trim_flow_def load_global_def assms(1))
  then show ?thesis
    by (simp add: pose_body_def st feat_def ab c1 p1 c2 p2 o0 o1)
qed

lemma pose_loop_name_error:
  assumes "genv ''h_side'' = None"
    and "\<forall>f \<in> set fs. f \<in> dom pose_feats" and "Frame 0 \<in> dom pose_feats"
    and "\<And>xs. \<exists>y. cat N xs = Inr y"
    and "\<And>x. \<exists>y. position_encoder N x = Inr y"
    and "\<And>x. \<exists>y. position N x = Inr y"
    and "\<exists>f \<in> set fs. f \<noteq> Stereo"
  shows "pose_loop N genv fill pose_feats fs st = Inl (NameError ''h_side'')"
  using assms(2,7)
proof (induction fs)
  case Nil
  then show ?case by simp
next
  case (Cons f fs)
  show ?case
  proof (cases "f = Stereo")
    case True
    with Cons show ?thesis by simp
  next
    case False
    have "pose_body N genv fill pose_feats f st = Inl (NameError ''h_side'')"
      using Cons.prems(1) by (intro pose_body_name_error assms) simp_all
    with False show ?thesis by simp
  qed
qed

text \<open>
  Claim C1, as amended. When \<^verbatim>\<open>num_pose_frames\<close> is 2 and \<^verbatim>\<open>frame_ids[1:]\<close> holds a
  frame that is not \<^verbatim>\<open>"s"\<close>, \<^verbatim>\<open>predict_poses\<close> never completes normally, whatever the
  module defines: the first such frame reads \<^verbatim>\<open>h_side\<close> and \<^verbatim>\<open>w_side\<close> and then the local
  \<^verbatim>\<open>conf\<close>, which is unbound. When the module does not define \<^verbatim>\<open>h_side\<close>, the batch holds
  the frames and the networks return, the exception is the NameError for \<^verbatim>\<open>h_side\<close> of
  line 320, raised before anything is stored in \<^verbatim>\<open>outputs\<close>. When
  \<^verbatim>\<open>num_pose_frames\<close> is not 2 the function returns the empty dictionary.
\<close>

theorem predict_poses_raises:
  assumes "num_pose_frames self = 2"
    and "\<exists>f \<in> set (tl (opt_frame_ids self)). f \<noteq> Stereo"
  shows "(\<forall>outputs. predict_poses N genv fill self inputs features \<noteq> Inr outputs) \<and>
    (genv ''h_side'' = None \<longrightarrow>
     (\<forall>f \<in> set (opt_frame_ids self).
        if opt_pose_model_type self = ''shared'' then Feat f \<in> dom features
        else InColorAug f 0 \<in> dom inputs) \<longrightarrow>
     Frame 0 \<in> set (opt_frame_ids self) \<longrightarrow>
     (\<forall>xs. \<exists>y. cat N xs = Inr y) \<longrightarrow>
     (\<forall>x. \<exists>y. position_encoder N x = Inr y) \<longrightarrow>
     (\<forall>x. \<exists>y. position N x = Inr y) \<longrightarrow>
     predict_poses N genv fill self inputs features = Inl (NameError ''h_side''))"
proof (intro conjI allI impI)
  fix outputs
  show "predict_poses N genv fill self inputs features \<noteq> Inr outputs"
    using assms pose_loop_unbound [OF assms(2), of N genv fill _ "[]" outputs]
    by (auto simp: predict_poses_def and_then_eq_Inr)
next
  assume g: "genv ''h_side'' = None"
    and k: "\<forall>f \<in> set (opt_frame_ids self).
        if opt_pose_model_type self = ''shared'' then Feat f \<in> dom features
        else InColorAug f 0 \<in> dom inputs"
    and z: "Frame 0 \<in> set (opt_frame_ids self)"
    and n: "\<forall>xs. \<exists>y. cat N xs = Inr y" "\<forall>x. \<exists>y. position_encoder N x = Inr y"
      "\<forall>x. \<exists>y. position N x = Inr y"
  let ?get = "if opt_pose_model_type self = ''shared''
      then (\<lambda>f_i. getitem features (Feat f_i)) else (\<lambda>f_i. getitem inputs (InColorAug f_i 0))"
  have "\<forall>f \<in> set (opt_frame_ids self). \<exists>v. ?get f = Inr v"
    using k by (auto simp: getitem_def split: option.splits if_splits)
  from build_feats_Inr [OF this, of Map.empty] obtain pose_feats where
    b: "build_feats ?get (opt_frame_ids self) Map.empty = Inr pose_feats" and
    d: "\<forall>f \<in> set (opt_frame_ids self). f \<in> dom pose_feats"
    by blast
  have t: "\<forall>f \<in> set (tl (opt_frame_ids self)). f \<in> dom pose_feats"
    using d by (cases "opt_frame_ids self") auto
  have "pose_loop N genv fill pose_feats (tl (opt_frame_ids self)) (None, [])
          = Inl (NameError ''h_side'')"
    using g t d z n assms(2) by (intro pose_loop_name_error) auto
  then show "predict_poses N genv fill self inputs features = Inl (NameError ''h_side'')"
    using b assms(1) by (simp add: predict_poses_def split: if_splits)
qed

theorem predict_poses_raises_witness:
  "trainer_init ''separate_resnet'' ''pairs'' False [Frame 0, Frame (- 1), Frame 1] = Inr self_pairs \<and>
   num_pose_frames self_pairs = 2 \<and>
   Frame 1 \<in> set (tl (opt_frame_ids self_pairs)) \<and>
   predict_poses nets0 no_globals fill0 self_pairs inputs_aug Map.empty = Inl (NameError ''h_side'')"
proof -
  have 1: "num_pose_frames self_pairs = 2"
    by (simp add: self_pairs_def)
  have 2: "\<exists>f \<in> set (tl (opt_frame_ids self_pairs)). f \<noteq> Stereo"
    by (simp add: self_pairs_def)
  have 3: "trainer_init ''separate_resnet'' ''pairs'' False [Frame 0, Frame (- 1), Frame 1]
             = Inr self_pairs"
    by (simp add: trainer_init_def self_pairs_def)
  have 4: "no_globals ''h_side'' = None"
    by (simp add: no_globals_def)
  have 5: "\<forall>f \<in> set (opt_frame_ids self_pairs).
        if opt_pose_model_type self_pairs = ''shared'' then Feat f \<in> dom Map.empty
        else InColorAug f 0 \<in> dom inputs_aug"
    by (simp add: self_pairs_def inputs_aug_def dom_def)
  have 6: "Frame 0 \<in> set (opt_frame_ids self_pairs)"
    by (simp add: self_pairs_def)
  have 7: "\<forall>xs. \<exists>y. cat nets0 xs = Inr y" "\<forall>x. \<exists>y. position_encoder nets0 x = Inr y"
    "\<forall>x. \<exists>y. position nets0 x = Inr y"
    by (simp_all add: nets0_def)
  have "predict_poses nets0 no_globals fill0 self_pairs inputs_aug Map.empty
          = Inl (NameError ''h_side'')"
    by (rule predict_poses_raises [where N = nets0 and genv = no_globals and fill = fill0
          and inputs = inputs_aug and features = Map.empty, OF 1 2, THEN conjunct2, rule_format,
          OF 4 5 [rule_format] 6 7 [rule_format]])
  with 1 3 show ?thesis by (simp add: self_pairs_def)
qed

theorem predict_poses_all_frames_counterexample:
  "trainer_init ''separate_resnet'' ''all'' False [Frame 0, Frame (- 1), Frame 1] = Inr self_all \<and>
   Frame (- 1) \<in> set (tl (opt_frame_ids self_all)) \<and> Frame (- 1) \<noteq> Stereo \<and>
   predict_poses nets0 no_globals fill0 self_all inputs_aug Map.empty = Inr []"
  by (simp add: trainer_init_def self_all_def predict_poses_def)

section \<open>Dense sampling and matching failures in \<^verbatim>\<open>pose_by_ransac\<close>\<close>

lemma length_trim: "0 < m \<Longrightarrow> length (trim m xs) = length xs - 2 * m"
  by (simp add: trim_def)

lemma nth_trim: "0 < m \<Longrightarrow> i < length xs - 2 * m \<Longrightarrow> trim m xs ! i = xs ! (i + m)"
  by (simp add: trim_def add.commute)

lemma set_trim: "set (trim m xs) \<subseteq> set xs"
  using set_drop_subset [of m "take (length xs - m) xs"] set_take_subset [of "length xs - m" xs]
  by (auto simp: trim_def)

lemma length_concat_rect:
  "\<forall>row \<in> set xss. length row = n \<Longrightarrow> length (concat xss) = length xss * n"
  by (induction xss) simp_all

lemma nth_concat_rect:
  "\<forall>row \<in> set xss. length row = n \<Longrightarrow> i < length xss \<Longrightarrow> j < n \<Longrightarrow>
     concat xss ! (i * n + j) = xss ! i ! j"
proof (induction xss arbitrary: i)
  case Nil
  then show ?case by simp
next
  case (Cons xs xss)
  show ?case
  proof (cases i)
    case 0
    with Cons.prems show ?thesis by (simp add: nth_append)
  next
    case (Suc k)
    with Cons.prems have "concat xss ! (k * n + j) = xss ! k ! j"
      by (intro Cons.IH) auto
    with Suc Cons.prems show ?thesis by (simp add: nth_append)
  qed
qed

lemma dense_sample_grid:
  assumes "k < length field" and "length (field ! k) = h"
    and "\<forall>row \<in> set (field ! k). length row = w"
  shows "length (dense_sample margin field ! k) = (h - 20) * (w - 20)"
    and "i < h - 20 \<Longrightarrow> j < w - 20 \<Longrightarrow>
           dense_sample margin field ! k ! (i * (w - 20) + j) = field ! k ! (i + 10) ! (j + 10)"
proof -
  let ?rows = "trim 10 (field ! k)"
  let ?grid = "map (trim 10) ?rows"
  have d: "dense_sample margin field ! k = concat ?grid"
    using assms(1) by (simp add: dense_sample_def margin_def)
  have n: "length ?rows = h - 20"
    using assms(2) by (simp add: length_trim)
  have r: "\<forall>row \<in> set ?rows. length row = w"
    using assms(3) set_trim [of 10 "field ! k"] by auto
  have g: "\<forall>row \<in> set ?grid. length row = w - 20"
    using r by (auto simp: length_trim)
  show "length (dense_sample margin field ! k) = (h - 20) * (w - 20)"
    using length_concat_rect [OF g] n by (simp add: d)
  assume i: "i < h - 20" and j: "j < w - 20"
  have "concat ?grid ! (i * (w - 20) + j) = ?grid ! i ! j"
    using i j n by (intro nth_concat_rect [OF g]) simp_all
  also have "\<dots> = trim 10 (?rows ! i) ! j"
    using i n by simp
  also have "?rows ! i = field ! k ! (i + 10)"
    using i assms(2) by (simp add: nth_trim)
  also have "trim 10 (field ! k ! (i + 10)) ! j = field ! k ! (i + 10) ! (j + 10)"
  proof -
    have "field ! k ! (i + 10) \<in> set (field ! k)"
      using i assms(2) by (intro nth_mem) simp
    then have "length (field ! k ! (i + 10)) = w"
      using assms(3) by blast
    with j show ?thesis by (simp add: nth_trim)
  qed
  finally show "dense_sample margin field ! k ! (i * (w - 20) + j) = field ! k ! (i + 10) ! (j + 10)"
    by (simp add: d)
qed

lemma length_dense_sample [simp]: "length (dense_sample m field) = length field"
  by (simp add: dense_sample_def)

lemma bmm_Inr:
  "list_all (\<lambda>row. length row = length c) K \<Longrightarrow> \<exists>r. bmm K c = Inr r"
  by (simp add: bmm_def)

lemma project_Inr:
  "list_all (\<lambda>row. length row = length c) K \<Longrightarrow> \<exists>a. project K c = Inr a"
  by (simp add: project_def bmm_def)

lemma select_points_dense:
  assumes "\<not> SIFT_POSE env"
    and "len_pts p1 < min_matches env \<or> len_pts p2 < min_matches env"
  shows "select_points env c1 c2 p1 p2 = Inr (dense_sample 10 c1, dense_sample 10 c2)"
  using assms by (auto simp: select_points_def margin_def)

lemma pose_item_dense:
  assumes "\<not> SIFT_POSE env"
    and "len_pts p1 < min_matches env \<or> len_pts p2 < min_matches env"
    and "batch < length Ks" and "list_all (\<lambda>row. length row = 3) (Ks ! batch)"
    and "length c1 = 3" and "length c2 = 3"
  shows "\<exists>a b. project (Ks ! batch) (dense_sample 10 c1) = Inr a \<and>
           project (Ks ! batch) (dense_sample 10 c2) = Inr b \<and>
           pose_item env Ks c1 c2 p1 p2 batch = compute_P_matrix_ransac env a b (Ks ! batch)"
proof -
  obtain a where a: "project (Ks ! batch) (dense_sample 10 c1) = Inr a"
    using project_Inr [of "dense_sample 10 c1" "Ks ! batch"] assms(4,5) by auto
  obtain b where b: "project (Ks ! batch) (dense_sample 10 c2) = Inr b"
    using project_Inr [of "dense_sample 10 c2" "Ks ! batch"] assms(4,6) by auto
  have "pose_item env Ks c1 c2 p1 p2 batch = compute_P_matrix_ransac env a b (Ks ! batch)"
    by (simp add: pose_item_def select_points_dense [OF assms(1,2)] py_nth_def assms(3) a b)
  with a b show ?thesis by blast
qed

lemma ransac_loop_Inr:
  "ransac_loop env Ks items = Inr poses \<Longrightarrow>
     length poses = length items \<and>
     (\<forall>i < length items.
        pose_item env Ks (fst (fst (snd (items ! i)))) (snd (fst (snd (items ! i))))
          (fst (snd (snd (items ! i)))) (snd (snd (snd (items ! i)))) (fst (items ! i))
        = Inr (poses ! i))"
proof (induction items arbitrary: poses)
  case Nil
  then show ?case by simp
next
  case (Cons item rest)
  from Cons.prems obtain p ps where
    p: "pose_item env Ks (fst (fst (snd item))) (snd (fst (snd item)))
          (fst (snd (snd item))) (snd (snd (snd item))) (fst item) = Inr p"
    and ps: "ransac_loop env Ks rest = Inr ps" and poses: "poses = p # ps"
    by (auto simp: and_then_eq_Inr)
  from Cons.IH [OF ps] p poses show ?case
    by (auto simp: nth_Cons split: nat.splits)
qed

lemma pose_by_ransac_item:
  assumes "pose_by_ransac env flow_2D ref target Ks = Inr poses"
    and "i < length (flow2coord env flow_2D)"
  shows "length poses = length (flow2coord env flow_2D)"
    and "pose_item env Ks (fst (flow2coord env flow_2D ! i)) (snd (flow2coord env flow_2D ! i))
           (fst (match_item env ref target i)) (snd (match_item env ref target i)) i
         = Inr (poses ! i)"
proof -
  let ?coords = "flow2coord env flow_2D"
  let ?items = "zip [0..<length ?coords] (zip ?coords (map (match_item env ref target) [0..<length ?coords]))"
  have r: "ransac_loop env Ks ?items = Inr poses"
    using assms(1) by (simp add: pose_by_ransac_def Let_def)
  have l: "length ?items = length ?coords" by simp
  from ransac_loop_Inr [OF r] l show "length poses = length ?coords" by simp
  have "?items ! i = (i, ?coords ! i, match_item env ref target i)"
    using assms(2) by simp
  with ransac_loop_Inr [OF r, THEN conjunct2, rule_format, of i] assms(2) l
  show "pose_item env Ks (fst (?coords ! i)) (snd (?coords ! i))
           (fst (match_item env ref target i)) (snd (match_item env ref target i)) i
         = Inr (poses ! i)"
    by simp
qed



text \<open>
  Claim C6, as amended. When \<^verbatim>\<open>cfg.SIFT_POSE\<close> is off and an item of the batch has fewer
  than \<^verbatim>\<open>min_matches\<close> points in \<^verbatim>\<open>PTS1\<close> or in \<^verbatim>\<open>PTS2\<close>, selecting its points raises
  nothing and gives the dense sample of the two coordinate fields: of a channel of \<open>h\<close>
  rows and \<open>w\<close> columns the \<open>(h - 20) * (w - 20)\<close> entries of rows \<open>10\<close> to \<open>h - 11\<close> and
  columns \<open>10\<close> to \<open>w - 11\<close>, row after row. With three channels and a matrix of three
  columns the projection succeeds and the result of the item is that of RANSAC on the
  projected dense points; it is the entry of the item in what \<^verbatim>\<open>pose_by_ransac\<close> returns.
\<close>

theorem dense_sampling_fallback:
  assumes "\<not> SIFT_POSE env"
    and "len_pts p1 < min_matches env \<or> len_pts p2 < min_matches env"
  shows "select_points env c1 c2 p1 p2 = Inr (dense_sample 10 c1, dense_sample 10 c2) \<and>
    (\<forall>c \<in> {c1, c2}. \<forall>k < length c. \<forall>h w.
       length (c ! k) = h \<and> (\<forall>row \<in> set (c ! k). length row = w) \<longrightarrow>
       length (dense_sample 10 c ! k) = (h - 20) * (w - 20) \<and>
       (\<forall>i < h - 20. \<forall>j < w - 20.
          dense_sample 10 c ! k ! (i * (w - 20) + j) = c ! k ! (i + 10) ! (j + 10))) \<and>
    (batch < length Ks \<longrightarrow> list_all (\<lambda>row. length row = 3) (Ks ! batch) \<longrightarrow>
     length c1 = 3 \<longrightarrow> length c2 = 3 \<longrightarrow>
       (\<exists>a b. project (Ks ! batch) (dense_sample 10 c1) = Inr a \<and>
              project (Ks ! batch) (dense_sample 10 c2) = Inr b \<and>
              pose_item env Ks c1 c2 p1 p2 batch = compute_P_matrix_ransac env a b (Ks ! batch))) \<and>
    (\<forall>flow_2D ref target poses.
       batch < length (flow2coord env flow_2D) \<longrightarrow>
       flow2coord env flow_2D ! batch = (c1, c2) \<longrightarrow>
       match_item env ref target batch = (p1, p2) \<longrightarrow>
       pose_by_ransac env flow_2D ref target Ks = Inr poses \<longrightarrow>
       pose_item env Ks c1 c2 p1 p2 batch = Inr (poses ! batch))"
proof (intro conjI ballI allI impI)
  show "select_points env c1 c2 p1 p2 = Inr (dense_sample 10 c1, dense_sample 10 c2)"
    by (rule select_points_dense [OF assms])
next
  fix c :: "fl list list list" and k h w
  assume "k < length c" and "length (c ! k) = h \<and> (\<forall>row \<in> set (c ! k). length row = w)"
  then show "length (dense_sample 10 c ! k) = (h - 20) * (w - 20)"
    using dense_sample_grid(1) [of k c h w] by (simp add: margin_def)
next
  fix c :: "fl list list list" and k h w i j
  assume "k < length c" and "length (c ! k) = h \<and> (\<forall>row \<in> set (c ! k). length row = w)"
    and "i < h - 20" and "j < w - 20"
  then show "dense_sample 10 c ! k ! (i * (w - 20) + j) = c ! k ! (i + 10) ! (j + 10)"
    using dense_sample_grid(2) [of k c h w i j] by (simp add: margin_def)
next
  assume "batch < length Ks" and "list_all (\<lambda>row. length row = 3) (Ks ! batch)"
    and "length c1 = 3" and "length c2 = 3"
  then show "\<exists>a b. project (Ks ! batch) (dense_sample 10 c1) = Inr a \<and>
              project (Ks ! batch) (dense_sample 10 c2) = Inr b \<and>
              pose_item env Ks c1 c2 p1 p2 batch = compute_P_matrix_ransac env a b (Ks ! batch)"
    by (rule pose_item_dense [OF assms])
next
  fix flow_2D ref target poses
  assume "batch < length (flow2coord env flow_2D)"
    and "flow2coord env flow_2D ! batch = (c1, c2)"
    and "match_item env ref target batch = (p1, p2)"
    and "pose_by_ransac env flow_2D ref target Ks = Inr poses"
  then show "pose_item env Ks c1 c2 p1 p2 batch = Inr (poses ! batch)"
    using pose_by_ransac_item(2) [of env flow_2D ref target Ks poses batch] by simp
qed

theorem dense_sampling_fallback_witness:
  "match_item env0 0 0 1 = (Pts [(1, 2)], Pts [(3, 4)]) \<and>
   select_points env0 field0 field0 (Pts [(1, 2)]) (Pts [(3, 4)])
     = Inr ([[Fin 10], [Fin 10], [Fin 1]], [[Fin 10], [Fin 10], [Fin 1]]) \<and>
   length (dense_sample 10 field0 ! 0) = 1 \<and>
   dense_sample 10 field0 ! 0 ! 0 = field0 ! 0 ! 10 ! 10 \<and>
   pose_item env0 [K0, K0] field0 field0 (Pts [(1, 2)]) (Pts [(3, 4)]) 1
     = Inr ([[Fin 10, Fin 10]], [[Fin 10, Fin 10]]) \<and>
   pose_by_ransac env0 [(field0, field0), (field0, field0)] 0 0 [K0, K0]
     = Inr [([[Fin 10, Fin 10]], [[Fin 10, Fin 10]]), ([[Fin 10, Fin 10]], [[Fin 10, Fin 10]])]"
proof -
  have 1: "\<not> SIFT_POSE env0"
    by (simp add: env0_def)
  have 2: "len_pts (Pts [(1, 2)]) < min_matches env0 \<or> len_pts (Pts [(3, 4)]) < min_matches env0"
    by (simp add: env0_def)
  note facts = dense_sampling_fallback [OF 1 2, of field0 field0 1 "[K0, K0]"]
  have d: "dense_sample 10 field0 = [[Fin 10], [Fin 10], [Fin 1]]"
    by code_simp
  have m: "match_item env0 0 0 1 = (Pts [(1, 2)], Pts [(3, 4)])"
    by code_simp
  have s: "select_points env0 field0 field0 (Pts [(1, 2)]) (Pts [(3, 4)])
     = Inr ([[Fin 10], [Fin 10], [Fin 1]], [[Fin 10], [Fin 10], [Fin 1]])"
    using facts [THEN conjunct1] by (simp add: d)
  have k: "(0::nat) < length field0" "length (field0 ! 0) = 21"
    "\<forall>row \<in> set (field0 ! 0). length row = 21"
    by (simp_all add: field0_def)
  have g: "length (dense_sample 10 field0 ! 0) = (21 - 20) * (21 - 20) \<and>
       (\<forall>i < 21 - 20. \<forall>j < 21 - 20.
          dense_sample 10 field0 ! 0 ! (i * (21 - 20) + j) = field0 ! 0 ! (i + 10) ! (j + 10))"
    using facts [THEN conjunct2, THEN conjunct1, rule_format, of field0 0 21 21] k by simp
  have g1: "length (dense_sample 10 field0 ! 0) = 1"
    using g by simp
  have g2: "dense_sample 10 field0 ! 0 ! 0 = field0 ! 0 ! 10 ! 10"
    using g [THEN conjunct2, rule_format, of 0 0] by simp
  have r: "pose_by_ransac env0 [(field0, field0), (field0, field0)] 0 0 [K0, K0]
     = Inr [([[Fin 10, Fin 10]], [[Fin 10, Fin 10]]), ([[Fin 10, Fin 10]], [[Fin 10, Fin 10]])]"
    by code_simp
  have c: "flow2coord env0 [(field0, field0), (field0, field0)] ! 1 = (field0, field0)"
    "1 < length (flow2coord env0 [(field0, field0), (field0, field0)])"
    by (simp_all add: env0_def)
  have p: "pose_item env0 [K0, K0] field0 field0 (Pts [(1, 2)]) (Pts [(3, 4)]) 1
     = Inr ([[Fin 10, Fin 10]], [[Fin 10, Fin 10]])"
    using facts [THEN conjunct2, THEN conjunct2, THEN conjunct2, rule_format, OF c(2) c(1) m r]
    by simp
  from m s g1 g2 p r show ?thesis by simp
qed

theorem sift_pose_few_matches_counterexample:
  "SIFT_POSE env_sift \<and>
   match_item env_sift 1 1 0 = (Pts [(1, 2)], Pts [(3, 4)]) \<and>
   len_pts (Pts [(1, 2)]) < min_matches env_sift \<and>
   select_points env_sift field0 field0 (Pts [(1, 2)]) (Pts [(3, 4)])
     = Inr ([[Fin 1], [Fin 2], [Fin 1]], [[Fin 3], [Fin 4], [Fin 1]]) \<and>
   dense_sample 10 field0 = [[Fin 10], [Fin 10], [Fin 1]] \<and>
   pose_by_ransac env_sift [(field0, field0)] 1 1 [K0] = Inr [([[Fin 1, Fin 2]], [[Fin 3, Fin 4]])]"
  by code_simp




end
